theory Spec2Isabelle
  imports Complex_Main "HOL-Library.Sublist"
begin

section \<open>Python values\<close>

text \<open>
  A Python \<open>str\<close> is a sequence of Unicode code points, and \<open>len\<close>, \<open>find\<close>, slicing and
  \<open>min_length\<close>/\<open>max_length\<close> all count code points.  A \<open>str\<close> is therefore a list of
  natural numbers; \<open>S\<close> turns an ASCII literal of the source into such a list.  A \<open>bytes\<close>
  or \<open>bytearray\<close> value is a list of 8-bit characters.

  A Python \<open>float\<close> is modelled by the rational number it denotes.  The not-a-number and
  the two infinities have no counterpart: every constrained float field of the input
  models rejects them, because each comparison with them that a constraint makes is
  false.  The float literals of the source denote the double nearest to the decimal
  written, so \<open>0.001\<close> and \<open>6.28318\<close> are the exact values of those doubles.
\<close>

type_synonym pystr = "nat list"
type_synonym pybytes = "char list"
type_synonym vec3 = "rat \<times> rat \<times> rat"

definition S :: "string \<Rightarrow> pystr" where
  "S s = map of_char s"

definition lit_0_001 :: rat where
  "lit_0_001 = 1152921504606847 / 1152921504606846976"

definition lit_6_28318 :: rat where
  "lit_6_28318 = 3537115888337719 / 562949953421312"

definition lit_0_8 :: rat where
  "lit_0_8 = 3602879701896397 / 4503599627370496"

definition isspace :: "nat \<Rightarrow> bool" where
  \<comment> \<open>\<open>str.isspace\<close> of one character: the characters \<open>str.strip()\<close> removes\<close>
  "isspace c \<longleftrightarrow>
     (9 \<le> c \<and> c \<le> 13) \<or> (28 \<le> c \<and> c \<le> 32) \<or> c = 0x85 \<or> c = 0xA0 \<or> c = 0x1680 \<or>
     (0x2000 \<le> c \<and> c \<le> 0x200A) \<or> c = 0x2028 \<or> c = 0x2029 \<or> c = 0x202F \<or>
     c = 0x205F \<or> c = 0x3000"

definition strip :: "pystr \<Rightarrow> pystr" where
  "strip s = rev (dropWhile isspace (rev (dropWhile isspace s)))"

definition startswith :: "pystr \<Rightarrow> pystr \<Rightarrow> bool" where
  "startswith s p \<longleftrightarrow> take (length p) s = p"

definition endswith :: "pystr \<Rightarrow> pystr \<Rightarrow> bool" where
  "endswith s p \<longleftrightarrow> length p \<le> length s \<and> drop (length s - length p) s = p"

definition lower_char :: "nat \<Rightarrow> nat" where
  \<comment> \<open>\<open>str.lower\<close> on the characters that matter for an ASCII suffix test: only \<open>A\<close>..\<open>Z\<close>
      (and the Kelvin sign, to \<open>k\<close>) lower to a single ASCII character\<close>
  "lower_char c = (if 65 \<le> c \<and> c \<le> 90 then c + 32 else if c = 0x212A then 107 else c)"

definition lower :: "pystr \<Rightarrow> pystr" where
  "lower s = map lower_char s"

definition upper_char :: "nat \<Rightarrow> nat" where
  \<comment> \<open>\<open>str.upper\<close> on the characters that matter for a comparison with an ASCII word:
      \<open>a\<close>..\<open>z\<close>, the long s and the dotless i are the only characters whose upper case
      is a single ASCII letter\<close>
  "upper_char c =
     (if 97 \<le> c \<and> c \<le> 122 then c - 32 else if c = 0x17F then 83 else if c = 0x131 then 73
      else c)"

definition upper :: "pystr \<Rightarrow> pystr" where
  "upper s = map upper_char s"

fun join :: "pystr \<Rightarrow> pystr list \<Rightarrow> pystr" where
  "join sep [] = []"
| "join sep [x] = x"
| "join sep (x # y # ys) = x @ sep @ join sep (y # ys)"

section \<open>Input models (src/src/models.py)\<close>

text \<open>
  Each input model is a pydantic \<open>BaseModel\<close>.  A field declared with \<open>Field(...)\<close> is
  first checked against its declared bounds; only a value that passes them is handed to
  the field's \<open>field_validator\<close> (an after-validator), whose result replaces the value.
  The model is built when every field is accepted; otherwise a \<open>ValidationError\<close> is
  raised that carries one entry for each rejected field, in the order of declaration.
  An entry names the field and the kind of violation.
\<close>

datatype verr =
    string_too_short nat
  | string_too_long nat
  | greater_than rat
  | greater_than_equal rat
  | less_than_equal rat
  | literal_error
  | value_error pystr

type_synonym ValidationError = "(string \<times> verr) list"

definition str_field :: "nat \<Rightarrow> nat option \<Rightarrow> pystr \<Rightarrow> verr + pystr" where
  \<comment> \<open>\<open>Field(min_length=lo, max_length=hi)\<close> of a \<open>str\<close>\<close>
  "str_field lo hi v =
     (if length v < lo then Inl (string_too_short lo)
      else case hi of
        None \<Rightarrow> Inr v
      | Some m \<Rightarrow> if m < length v then Inl (string_too_long m) else Inr v)"

definition float_gt_le :: "rat \<Rightarrow> rat \<Rightarrow> rat \<Rightarrow> verr + rat" where
  \<comment> \<open>\<open>Field(gt=lo, le=hi)\<close> of a \<open>float\<close>\<close>
  "float_gt_le lo hi v =
     (if \<not> lo < v then Inl (greater_than lo)
      else if \<not> v \<le> hi then Inl (less_than_equal hi) else Inr v)"

definition float_ge_le :: "rat \<Rightarrow> rat \<Rightarrow> rat \<Rightarrow> verr + rat" where
  \<comment> \<open>\<open>Field(ge=lo, le=hi)\<close> of a \<open>float\<close>\<close>
  "float_ge_le lo hi v =
     (if \<not> lo \<le> v then Inl (greater_than_equal lo)
      else if \<not> v \<le> hi then Inl (less_than_equal hi) else Inr v)"

definition int_ge_le :: "int \<Rightarrow> int \<Rightarrow> int \<Rightarrow> verr + int" where
  \<comment> \<open>\<open>Field(ge=lo, le=hi)\<close> of an \<open>int\<close>\<close>
  "int_ge_le lo hi v =
     (if \<not> lo \<le> v then Inl (greater_than_equal (of_int lo))
      else if \<not> v \<le> hi then Inl (less_than_equal (of_int hi)) else Inr v)"

definition after :: "verr + 'a \<Rightarrow> ('a \<Rightarrow> verr + 'b) \<Rightarrow> verr + 'b" where
  \<comment> \<open>an after-validator runs on a value that passed the declared bounds\<close>
  "after r f = (case r of Inl e \<Rightarrow> Inl e | Inr v \<Rightarrow> f v)"

definition field_errors :: "string \<Rightarrow> verr + 'a \<Rightarrow> ValidationError" where
  "field_errors f r = (case r of Inl e \<Rightarrow> [(f, e)] | Inr v \<Rightarrow> [])"

definition all_within :: "rat \<Rightarrow> vec3 \<Rightarrow> bool" where
  \<comment> \<open>\<open>all(-limit <= coord <= limit for coord in (x, y, z))\<close>\<close>
  "all_within limit v = (case v of (x, y, z) \<Rightarrow>
     (- limit \<le> x \<and> x \<le> limit) \<and> (- limit \<le> y \<and> y \<le> limit) \<and> (- limit \<le> z \<and> z \<le> limit))"

definition invalid_chars :: "nat list" where
  \<comment> \<open>\<open>['/', '\\', ':', '*', '?', '"', '<', '>', '|']\<close>\<close>
  "invalid_chars = [47, 92, 58, 42, 63, 34, 60, 62, 124]"

definition validate_name :: "pystr \<Rightarrow> verr + pystr" where
  "validate_name v =
     (if \<exists>char \<in> set invalid_chars. char \<in> set v
      then Inl (value_error (S ''Name cannot contain: '' @ join (S '', '') (map (\<lambda>c. [c]) invalid_chars)))
      else Inr (strip v))"

definition validate_location :: "vec3 \<Rightarrow> verr + vec3" where
  "validate_location v =
     (if \<not> all_within 10000 v
      then Inl (value_error (S ''Location coordinates must be within '' @ [177] @ S ''10000.0''))
      else Inr v)"

definition validate_vector3 :: "vec3 \<Rightarrow> verr + vec3" where
  "validate_vector3 v =
     (if \<not> all_within 10000 v
      then Inl (value_error (S ''Vector coordinates must be within '' @ [177] @ S ''10000.0''))
      else Inr v)"

definition validate_rotation :: "vec3 \<Rightarrow> verr + vec3" where
  "validate_rotation v =
     (if \<not> all_within lit_6_28318 v
      then Inl (value_error
        (S ''Rotation values should be within '' @ [177] @
           S ''6.28318 radians (approximately '' @ [177] @ S ''360 degrees)''))
      else Inr v)"

definition validate_scale_sphere :: "vec3 \<Rightarrow> verr + vec3" where
  \<comment> \<open>\<open>CreateSphereInput.validate_scale\<close>\<close>
  "validate_scale_sphere v = (case v of (x, y, z) \<Rightarrow>
     if \<not> (x \<ge> 0 \<and> y \<ge> 0 \<and> z \<ge> 0) then Inl (value_error (S ''Scale values must be >= 0.0''))
     else if \<not> (x \<le> 1000 \<and> y \<le> 1000 \<and> z \<le> 1000)
       then Inl (value_error (S ''Scale values must be <= 1000.0''))
     else Inr v)"

definition validate_scale_object :: "vec3 \<Rightarrow> verr + vec3" where
  \<comment> \<open>\<open>ScaleObjectInput.validate_scale\<close>\<close>
  "validate_scale_object v = (case v of (x, y, z) \<Rightarrow>
     if \<not> (x > 0 \<and> y > 0 \<and> z > 0)
       then Inl (value_error (S ''Scale values must be positive (greater than 0)''))
     else if \<not> (x \<le> 1000 \<and> y \<le> 1000 \<and> z \<le> 1000)
       then Inl (value_error (S ''Scale values must be <= 1000.0''))
     else Inr v)"

definition validate_color :: "vec3 \<Rightarrow> verr + vec3" where
  "validate_color v = (case v of (r, g, b) \<Rightarrow>
     if \<not> ((0 \<le> r \<and> r \<le> 1) \<and> (0 \<le> g \<and> g \<le> 1) \<and> (0 \<le> b \<and> b \<le> 1))
       then Inl (value_error (S ''Color values must be between 0.0 and 1.0''))
     else Inr v)"

definition validate_light_type :: "pystr \<Rightarrow> verr + pystr" where
  "validate_light_type v =
     (if upper v \<notin> set [S ''SUN'', S ''POINT'', S ''SPOT'', S ''AREA'']
      then Inl (value_error (S ''Light type must be one of: SUN, POINT, SPOT, AREA''))
      else Inr (upper v))"

definition validate_align :: "pystr \<Rightarrow> verr + pystr" where
  \<comment> \<open>\<open>Literal['WORLD', 'VIEW', 'CURSOR']\<close>\<close>
  "validate_align v =
     (if v \<in> set [S ''WORLD'', S ''VIEW'', S ''CURSOR''] then Inr v else Inl literal_error)"

definition validate_filepath_image :: "pystr \<Rightarrow> verr + pystr" where
  \<comment> \<open>\<open>RenderSceneInput.validate_filepath\<close>\<close>
  "validate_filepath_image v =
     (if \<not> (\<exists>ext \<in> set [S ''.png'', S ''.jpg'', S ''.jpeg'', S ''.bmp'', S ''.tiff'', S ''.exr''].
               endswith (lower v) ext)
      then Inl (value_error
        (S ''Filepath must end with one of: .png, .jpg, .jpeg, .bmp, .tiff, .exr''))
      else Inr v)"

definition validate_filepath_blend :: "pystr \<Rightarrow> verr + pystr" where
  \<comment> \<open>\<open>SaveFileInput.validate_filepath\<close> and \<open>OpenFileInput.validate_filepath\<close>\<close>
  "validate_filepath_blend v =
     (if \<not> endswith (lower v) (S ''.blend'')
      then Inl (value_error (S ''Filepath must end with .blend extension''))
      else Inr (strip v))"

definition validate_location_opt :: "vec3 option \<Rightarrow> verr + vec3 option" where
  \<comment> \<open>\<open>DuplicateObjectInput.validate_location\<close>: \<open>None\<close> is accepted as it is\<close>
  "validate_location_opt v =
     (case v of
        None \<Rightarrow> Inr None
      | Some l \<Rightarrow>
          if \<not> all_within 10000 l
          then Inl (value_error (S ''Location coordinates must be within '' @ [177] @ S ''10000.0''))
          else Inr (Some l))"

text \<open>
  One record for each input model, holding the validated values, and one constructor,
  \<open>new_M\<close> for the model \<open>M\<close>, that takes the keyword arguments of the call \<open>M(...)\<close> in
  the order of the fields and either builds the record or raises the
  \<open>ValidationError\<close>.  The fields of a record carry a prefix that tells the models
  apart (\<open>cube_name\<close> is \<open>CreateCubeInput.name\<close>).
\<close>

record CreateCubeInput =
  cube_name :: pystr
  cube_size :: rat
  cube_location :: vec3

definition new_CreateCubeInput :: "pystr \<Rightarrow> rat \<Rightarrow> vec3 \<Rightarrow> ValidationError + CreateCubeInput" where
  "new_CreateCubeInput name size' location =
     (let r_name = after (str_field 1 (Some 63) name) validate_name;
          r_size = float_gt_le lit_0_001 1000 size';
          r_location = validate_location location;
          errors = field_errors ''name'' r_name @
                   field_errors ''size'' r_size @
                   field_errors ''location'' r_location
      in if errors = []
         then Inr \<lparr>cube_name = projr r_name,
                   cube_size = projr r_size,
                   cube_location = projr r_location\<rparr>
         else Inl errors)"

record CreateSphereInput =
  sphere_name :: pystr
  sphere_segments :: int
  sphere_ring_count :: int
  sphere_radius :: rat
  sphere_calc_uvs :: bool
  sphere_enter_editmode :: bool
  sphere_align :: pystr
  sphere_location :: vec3
  sphere_rotation :: vec3
  sphere_scale :: vec3

definition new_CreateSphereInput :: "pystr \<Rightarrow> int \<Rightarrow> int \<Rightarrow> rat \<Rightarrow> bool \<Rightarrow> bool \<Rightarrow> pystr \<Rightarrow> vec3 \<Rightarrow> vec3 \<Rightarrow> vec3 \<Rightarrow> ValidationError + CreateSphereInput" where
  "new_CreateSphereInput name segments ring_count radius calc_uvs enter_editmode align location rotation scale =
     (let r_name = after (str_field 1 (Some 63) name) validate_name;
          r_segments = int_ge_le 3 100000 segments;
          r_ring_count = int_ge_le 3 100000 ring_count;
          r_radius = float_ge_le 0 1000 radius;
          r_calc_uvs = Inr calc_uvs;
          r_enter_editmode = Inr enter_editmode;
          r_align = validate_align align;
          r_location = validate_vector3 location;
          r_rotation = validate_vector3 rotation;
          r_scale = validate_scale_sphere scale;
          errors = field_errors ''name'' r_name @
                   field_errors ''segments'' r_segments @
                   field_errors ''ring_count'' r_ring_count @
                   field_errors ''radius'' r_radius @
                   field_errors ''calc_uvs'' r_calc_uvs @
                   field_errors ''enter_editmode'' r_enter_editmode @
                   field_errors ''align'' r_align @
                   field_errors ''location'' r_location @
                   field_errors ''rotation'' r_rotation @
                   field_errors ''scale'' r_scale
      in if errors = []
         then Inr \<lparr>sphere_name = projr r_name,
                   sphere_segments = projr r_segments,
                   sphere_ring_count = projr r_ring_count,
                   sphere_radius = projr r_radius,
                   sphere_calc_uvs = projr r_calc_uvs,
                   sphere_enter_editmode = projr r_enter_editmode,
                   sphere_align = projr r_align,
                   sphere_location = projr r_location,
                   sphere_rotation = projr r_rotation,
                   sphere_scale = projr r_scale\<rparr>
         else Inl errors)"

record MoveObjectInput =
  move_name :: pystr
  move_location :: vec3

definition new_MoveObjectInput :: "pystr \<Rightarrow> vec3 \<Rightarrow> ValidationError + MoveObjectInput" where
  "new_MoveObjectInput name location =
     (let r_name = str_field 1 (Some 63) name;
          r_location = validate_location location;
          errors = field_errors ''name'' r_name @
                   field_errors ''location'' r_location
      in if errors = []
         then Inr \<lparr>move_name = projr r_name,
                   move_location = projr r_location\<rparr>
         else Inl errors)"

record DeleteObjectInput =
  delete_name :: pystr

definition new_DeleteObjectInput :: "pystr \<Rightarrow> ValidationError + DeleteObjectInput" where
  "new_DeleteObjectInput name =
     (let r_name = str_field 1 (Some 63) name;
          errors = field_errors ''name'' r_name
      in if errors = []
         then Inr \<lparr>delete_name = projr r_name\<rparr>
         else Inl errors)"

record SelectObjectInput =
  select_name :: pystr

definition new_SelectObjectInput :: "pystr \<Rightarrow> ValidationError + SelectObjectInput" where
  "new_SelectObjectInput name =
     (let r_name = str_field 1 (Some 63) name;
          errors = field_errors ''name'' r_name
      in if errors = []
         then Inr \<lparr>select_name = projr r_name\<rparr>
         else Inl errors)"

record CreateMaterialInput =
  mat_name :: pystr
  mat_color :: vec3

definition new_CreateMaterialInput :: "pystr \<Rightarrow> vec3 \<Rightarrow> ValidationError + CreateMaterialInput" where
  "new_CreateMaterialInput name color =
     (let r_name = str_field 1 (Some 63) name;
          r_color = validate_color color;
          errors = field_errors ''name'' r_name @
                   field_errors ''color'' r_color
      in if errors = []
         then Inr \<lparr>mat_name = projr r_name,
                   mat_color = projr r_color\<rparr>
         else Inl errors)"

record AssignMaterialInput =
  assign_object_name :: pystr
  assign_material_name :: pystr

definition new_AssignMaterialInput :: "pystr \<Rightarrow> pystr \<Rightarrow> ValidationError + AssignMaterialInput" where
  "new_AssignMaterialInput object_name material_name =
     (let r_object_name = str_field 1 (Some 63) object_name;
          r_material_name = str_field 1 (Some 63) material_name;
          errors = field_errors ''object_name'' r_object_name @
                   field_errors ''material_name'' r_material_name
      in if errors = []
         then Inr \<lparr>assign_object_name = projr r_object_name,
                   assign_material_name = projr r_material_name\<rparr>
         else Inl errors)"

record RotateObjectInput =
  rotate_name :: pystr
  rotate_rotation :: vec3

definition new_RotateObjectInput :: "pystr \<Rightarrow> vec3 \<Rightarrow> ValidationError + RotateObjectInput" where
  "new_RotateObjectInput name rotation =
     (let r_name = str_field 1 (Some 63) name;
          r_rotation = validate_rotation rotation;
          errors = field_errors ''name'' r_name @
                   field_errors ''rotation'' r_rotation
      in if errors = []
         then Inr \<lparr>rotate_name = projr r_name,
                   rotate_rotation = projr r_rotation\<rparr>
         else Inl errors)"

record ScaleObjectInput =
  scale_name :: pystr
  scale_scale :: vec3

definition new_ScaleObjectInput :: "pystr \<Rightarrow> vec3 \<Rightarrow> ValidationError + ScaleObjectInput" where
  "new_ScaleObjectInput name scale =
     (let r_name = str_field 1 (Some 63) name;
          r_scale = validate_scale_object scale;
          errors = field_errors ''name'' r_name @
                   field_errors ''scale'' r_scale
      in if errors = []
         then Inr \<lparr>scale_name = projr r_name,
                   scale_scale = projr r_scale\<rparr>
         else Inl errors)"

record GetObjectInfoInput =
  info_name :: pystr

definition new_GetObjectInfoInput :: "pystr \<Rightarrow> ValidationError + GetObjectInfoInput" where
  "new_GetObjectInfoInput name =
     (let r_name = str_field 1 (Some 63) name;
          errors = field_errors ''name'' r_name
      in if errors = []
         then Inr \<lparr>info_name = projr r_name\<rparr>
         else Inl errors)"

record CreateCameraInput =
  cam_name :: pystr
  cam_location :: vec3
  cam_rotation :: vec3

definition new_CreateCameraInput :: "pystr \<Rightarrow> vec3 \<Rightarrow> vec3 \<Rightarrow> ValidationError + CreateCameraInput" where
  "new_CreateCameraInput name location rotation =
     (let r_name = after (str_field 1 (Some 63) name) validate_name;
          r_location = validate_location location;
          r_rotation = Inr rotation;
          errors = field_errors ''name'' r_name @
                   field_errors ''location'' r_location @
                   field_errors ''rotation'' r_rotation
      in if errors = []
         then Inr \<lparr>cam_name = projr r_name,
                   cam_location = projr r_location,
                   cam_rotation = projr r_rotation\<rparr>
         else Inl errors)"

record CreateLightInput =
  light_name :: pystr
  light_light_type :: pystr
  light_location :: vec3
  light_energy :: rat

definition new_CreateLightInput :: "pystr \<Rightarrow> pystr \<Rightarrow> vec3 \<Rightarrow> rat \<Rightarrow> ValidationError + CreateLightInput" where
  "new_CreateLightInput name light_type location energy =
     (let r_name = after (str_field 1 (Some 63) name) validate_name;
          r_light_type = validate_light_type light_type;
          r_location = validate_location location;
          r_energy = float_ge_le 0 1000 energy;
          errors = field_errors ''name'' r_name @
                   field_errors ''light_type'' r_light_type @
                   field_errors ''location'' r_location @
                   field_errors ''energy'' r_energy
      in if errors = []
         then Inr \<lparr>light_name = projr r_name,
                   light_light_type = projr r_light_type,
                   light_location = projr r_location,
                   light_energy = projr r_energy\<rparr>
         else Inl errors)"

record RenderSceneInput =
  render_filepath :: pystr
  render_resolution_x :: int
  render_resolution_y :: int

definition new_RenderSceneInput :: "pystr \<Rightarrow> int \<Rightarrow> int \<Rightarrow> ValidationError + RenderSceneInput" where
  "new_RenderSceneInput filepath resolution_x resolution_y =
     (let r_filepath = after (str_field 1 None filepath) validate_filepath_image;
          r_resolution_x = int_ge_le 1 10000 resolution_x;
          r_resolution_y = int_ge_le 1 10000 resolution_y;
          errors = field_errors ''filepath'' r_filepath @
                   field_errors ''resolution_x'' r_resolution_x @
                   field_errors ''resolution_y'' r_resolution_y
      in if errors = []
         then Inr \<lparr>render_filepath = projr r_filepath,
                   render_resolution_x = projr r_resolution_x,
                   render_resolution_y = projr r_resolution_y\<rparr>
         else Inl errors)"

record CreateCylinderInput =
  cylinder_name :: pystr
  cylinder_radius :: rat
  cylinder_depth :: rat
  cylinder_location :: vec3
  cylinder_vertices :: int

definition new_CreateCylinderInput :: "pystr \<Rightarrow> rat \<Rightarrow> rat \<Rightarrow> vec3 \<Rightarrow> int \<Rightarrow> ValidationError + CreateCylinderInput" where
  "new_CreateCylinderInput name radius depth location vertices =
     (let r_name = after (str_field 1 (Some 63) name) validate_name;
          r_radius = float_gt_le lit_0_001 1000 radius;
          r_depth = float_gt_le lit_0_001 1000 depth;
          r_location = validate_location location;
          r_vertices = int_ge_le 3 256 vertices;
          errors = field_errors ''name'' r_name @
                   field_errors ''radius'' r_radius @
                   field_errors ''depth'' r_depth @
                   field_errors ''location'' r_location @
                   field_errors ''vertices'' r_vertices
      in if errors = []
         then Inr \<lparr>cylinder_name = projr r_name,
                   cylinder_radius = projr r_radius,
                   cylinder_depth = projr r_depth,
                   cylinder_location = projr r_location,
                   cylinder_vertices = projr r_vertices\<rparr>
         else Inl errors)"

record CreatePlaneInput =
  plane_name :: pystr
  plane_size :: rat
  plane_location :: vec3

definition new_CreatePlaneInput :: "pystr \<Rightarrow> rat \<Rightarrow> vec3 \<Rightarrow> ValidationError + CreatePlaneInput" where
  "new_CreatePlaneInput name size' location =
     (let r_name = after (str_field 1 (Some 63) name) validate_name;
          r_size = float_gt_le lit_0_001 1000 size';
          r_location = validate_location location;
          errors = field_errors ''name'' r_name @
                   field_errors ''size'' r_size @
                   field_errors ''location'' r_location
      in if errors = []
         then Inr \<lparr>plane_name = projr r_name,
                   plane_size = projr r_size,
                   plane_location = projr r_location\<rparr>
         else Inl errors)"

record DuplicateObjectInput =
  duplicate_name :: pystr
  duplicate_new_name :: pystr
  duplicate_location :: "vec3 option"

definition new_DuplicateObjectInput :: "pystr \<Rightarrow> pystr \<Rightarrow> (vec3 option) \<Rightarrow> ValidationError + DuplicateObjectInput" where
  "new_DuplicateObjectInput name new_name location =
     (let r_name = str_field 1 (Some 63) name;
          r_new_name = after (str_field 1 (Some 63) new_name) validate_name;
          r_location = validate_location_opt location;
          errors = field_errors ''name'' r_name @
                   field_errors ''new_name'' r_new_name @
                   field_errors ''location'' r_location
      in if errors = []
         then Inr \<lparr>duplicate_name = projr r_name,
                   duplicate_new_name = projr r_new_name,
                   duplicate_location = projr r_location\<rparr>
         else Inl errors)"

record SetActiveCameraInput =
  active_camera_name :: pystr

definition new_SetActiveCameraInput :: "pystr \<Rightarrow> ValidationError + SetActiveCameraInput" where
  "new_SetActiveCameraInput camera_name =
     (let r_camera_name = str_field 1 (Some 63) camera_name;
          errors = field_errors ''camera_name'' r_camera_name
      in if errors = []
         then Inr \<lparr>active_camera_name = projr r_camera_name\<rparr>
         else Inl errors)"

record SaveFileInput =
  save_filepath :: pystr

definition new_SaveFileInput :: "pystr \<Rightarrow> ValidationError + SaveFileInput" where
  "new_SaveFileInput filepath =
     (let r_filepath = after (str_field 1 None filepath) validate_filepath_blend;
          errors = field_errors ''filepath'' r_filepath
      in if errors = []
         then Inr \<lparr>save_filepath = projr r_filepath\<rparr>
         else Inl errors)"

record OpenFileInput =
  open_filepath :: pystr

definition new_OpenFileInput :: "pystr \<Rightarrow> ValidationError + OpenFileInput" where
  "new_OpenFileInput filepath =
     (let r_filepath = after (str_field 1 None filepath) validate_filepath_blend;
          errors = field_errors ''filepath'' r_filepath
      in if errors = []
         then Inr \<lparr>open_filepath = projr r_filepath\<rparr>
         else Inl errors)"

section \<open>The host and the Python runtime\<close>

text \<open>
  The handlers reach the 3D application through the \<open>bpy\<close> module.  The application is
  not part of the repository, so it is a parameter: a record of the answers it gives.
  Every answer depends on the calls that changed the host so far (the \<open>log\<close> of the
  state), and every access may raise instead of answering.  The state of a tool call is
  that log together with a counter of the handler invocations, which the tools bump when
  they hand a validated model to a handler.

  An exception is an \<open>ImportError\<close>, pydantic's \<open>ValidationError\<close>, or any other
  subclass of \<open>Exception\<close>, of which only \<open>str(e)\<close> matters.  Exceptions outside
  \<open>Exception\<close> (a keyboard interrupt, an exit request) are not host behaviour and are
  not modelled.

  Three functions of the Python runtime and its libraries are parameters as well: the
  \<open>repr\<close> of a float, the \<open>str\<close> of a \<open>ValidationError\<close>, and \<open>os.path.dirname\<close>.
\<close>

type_synonym objref = nat
type_synonym matref = nat

datatype exn =
    ImportError pystr
  | ValidationError ValidationError
  | OtherException pystr

datatype hostcall =
    primitive_cube_add rat vec3
  | primitive_uv_sphere_add int int rat bool bool pystr vec3 vec3 vec3
  | primitive_cylinder_add rat rat vec3 int
  | primitive_plane_add rat vec3
  | camera_add vec3 vec3
  | light_add pystr vec3
  | set_name objref pystr
  | set_active objref
  | select_set objref bool
  | set_location objref vec3
  | set_rotation_euler objref vec3
  | set_scale objref vec3
  | objects_remove objref
  | select_all pystr
  | object_delete
  | object_duplicate
  | materials_new pystr
  | set_base_color matref "rat \<times> rat \<times> rat \<times> rat"
  | set_material_slot0 objref matref
  | materials_append objref matref
  | set_energy objref rat
  | set_scene_camera objref
  | set_resolution_x int
  | set_resolution_y int
  | set_render_filepath pystr
  | render_render bool
  | makedirs pystr bool
  | save_as_mainfile pystr
  | open_mainfile pystr

record state =
  log :: "hostcall list"
  handler_calls :: nat

record host =
  bpy_present :: bool
  float_repr :: "rat \<Rightarrow> pystr"
  validation_error_str :: "ValidationError \<Rightarrow> pystr"
  path_dirname :: "pystr \<Rightarrow> pystr"
  perform :: "hostcall list \<Rightarrow> hostcall \<Rightarrow> exn option"
  objects_get :: "hostcall list \<Rightarrow> pystr \<Rightarrow> exn + objref option"
  objects_all :: "hostcall list \<Rightarrow> exn + objref list"
  materials_get :: "hostcall list \<Rightarrow> pystr \<Rightarrow> exn + matref option"
  materials_contains :: "hostcall list \<Rightarrow> pystr \<Rightarrow> exn + bool"
  created_material :: "hostcall list \<Rightarrow> exn + matref"
  material_node_tree :: "hostcall list \<Rightarrow> matref \<Rightarrow> exn + bool"
  material_bsdf :: "hostcall list \<Rightarrow> matref \<Rightarrow> exn + bool"
  active_object :: "hostcall list \<Rightarrow> exn + objref option"
  obj_name :: "hostcall list \<Rightarrow> objref \<Rightarrow> exn + pystr"
  obj_type :: "hostcall list \<Rightarrow> objref \<Rightarrow> exn + pystr"
  obj_location :: "hostcall list \<Rightarrow> objref \<Rightarrow> exn + vec3"
  obj_rotation_euler :: "hostcall list \<Rightarrow> objref \<Rightarrow> exn + vec3"
  obj_scale :: "hostcall list \<Rightarrow> objref \<Rightarrow> exn + vec3"
  obj_data :: "hostcall list \<Rightarrow> objref \<Rightarrow> exn + bool"
  obj_data_materials :: "hostcall list \<Rightarrow> objref \<Rightarrow> exn + bool"
  mesh_vertices :: "hostcall list \<Rightarrow> objref \<Rightarrow> exn + nat"
  mesh_polygons :: "hostcall list \<Rightarrow> objref \<Rightarrow> exn + nat"
  scene_camera :: "hostcall list \<Rightarrow> exn + objref option"
  data_filepath :: "hostcall list \<Rightarrow> exn + pystr"
  path_exists :: "hostcall list \<Rightarrow> pystr \<Rightarrow> exn + bool"

text \<open>
  The boolean answers are the truth values Python takes of the host's objects:
  \<open>material_node_tree\<close> and \<open>material_bsdf\<close> tell whether \<open>mat.node_tree\<close> and the node
  \<open>"Principled BSDF"\<close> are there, \<open>obj_data\<close> is the truth value of
  \<open>obj.data\<close>, \<open>obj_data_materials\<close> that of \<open>obj.data.materials\<close>.
  \<open>created_material\<close> is the material that \<open>bpy.data.materials.new\<close> has just
  returned.
\<close>

type_synonym 'a hostm = "state \<Rightarrow> (exn + 'a) \<times> state"

definition ret :: "'a \<Rightarrow> 'a hostm" where
  "ret x = (\<lambda>s. (Inr x, s))"

definition raise :: "exn \<Rightarrow> 'a hostm" where
  "raise e = (\<lambda>s. (Inl e, s))"

definition bnd :: "'a hostm \<Rightarrow> ('a \<Rightarrow> 'b hostm) \<Rightarrow> 'b hostm" where
  "bnd m f = (\<lambda>s. case m s of (Inl e, s') \<Rightarrow> (Inl e, s') | (Inr x, s') \<Rightarrow> f x s')"

definition ask :: "(hostcall list \<Rightarrow> exn + 'a) \<Rightarrow> 'a hostm" where
  \<comment> \<open>read from the host\<close>
  "ask q = (\<lambda>s. (q (log s), s))"

definition call :: "host \<Rightarrow> hostcall \<Rightarrow> unit hostm" where
  \<comment> \<open>change the host: the call is logged unless the host raises\<close>
  "call w c = (\<lambda>s. case perform w (log s) c of
                      Some e \<Rightarrow> (Inl e, s)
                    | None \<Rightarrow> (Inr (), s\<lparr>log := log s @ [c]\<rparr>))"

function digits :: "nat \<Rightarrow> pystr" where
  "digits n = (if n < 10 then [48 + n] else digits (n div 10) @ [48 + n mod 10])"
  by pat_completeness auto
termination
  by (relation "measure id") auto

definition str_nat :: "nat \<Rightarrow> pystr" where
  "str_nat n = digits n"

definition str_int :: "int \<Rightarrow> pystr" where
  "str_int i = (if i < 0 then S ''-'' @ digits (nat (- i)) else digits (nat i))"

definition str_exn :: "host \<Rightarrow> exn \<Rightarrow> pystr" where
  \<comment> \<open>\<open>str(e)\<close>\<close>
  "str_exn w e = (case e of
       ImportError m \<Rightarrow> m
     | ValidationError ve \<Rightarrow> validation_error_str w ve
     | OtherException m \<Rightarrow> m)"

definition str_vec3 :: "host \<Rightarrow> vec3 \<Rightarrow> pystr" where
  \<comment> \<open>\<open>str\<close> of a tuple of three floats\<close>
  "str_vec3 w v = (case v of (x, y, z) \<Rightarrow>
     S ''('' @ float_repr w x @ S '', '' @ float_repr w y @ S '', '' @ float_repr w z @ S '')'')"

definition quoted :: "pystr \<Rightarrow> pystr" where
  "quoted n = [39] @ n @ [39]"

definition import_bpy :: "host \<Rightarrow> unit hostm" where
  "import_bpy w =
     (if bpy_present w then ret () else raise (ImportError (S ''No module named '' @ quoted (S ''bpy''))))"

definition operation :: "host \<Rightarrow> pystr \<Rightarrow> pystr hostm \<Rightarrow> pystr hostm" where
  \<comment> \<open>the frame every handler has: \<open>try: import bpy; body
      except ImportError: ... except Exception as e: ...\<close>\<close>
  "operation w label body = (\<lambda>s.
     case bnd (import_bpy w) (\<lambda>_. body) s of
       (Inr r, s') \<Rightarrow> (Inr r, s')
     | (Inl (ImportError m), s') \<Rightarrow>
         (Inr (S ''Error: bpy module not found. Tool must run in Blender environment.''), s')
     | (Inl e, s') \<Rightarrow> (Inr (S ''Error ['' @ label @ S '']: '' @ str_exn w e), s'))"

definition thn :: "unit hostm \<Rightarrow> 'a hostm \<Rightarrow> 'a hostm" where
  "thn m n = bnd m (\<lambda>_. n)"

fun each :: "('a \<Rightarrow> 'b hostm) \<Rightarrow> 'a list \<Rightarrow> 'b list hostm" where
  \<comment> \<open>a \<open>for\<close> loop that appends one result for each element\<close>
  "each f [] = ret []"
| "each f (x # xs) = bnd (f x) (\<lambda>y. bnd (each f xs) (\<lambda>ys. ret (y # ys)))"

section \<open>Handlers (src/src/operations.py)\<close>

definition create_cube :: "host \<Rightarrow> CreateCubeInput \<Rightarrow> pystr hostm" where
  "create_cube w input = operation w (S ''Create Cube'')
     (thn (call w (primitive_cube_add (cube_size input) (cube_location input)))
     (bnd (ask (active_object w)) (\<lambda>cube.
        case cube of
          Some c \<Rightarrow>
            thn (call w (set_name c (cube_name input)))
            (ret (S ''Successfully created cube '' @ quoted (cube_name input) @
                  S '' with size '' @ float_repr w (cube_size input) @
                  S '' at location '' @ str_vec3 w (cube_location input)))
        | None \<Rightarrow> ret (S ''Error: Cube created but could not get reference to object''))))"

definition create_sphere :: "host \<Rightarrow> CreateSphereInput \<Rightarrow> pystr hostm" where
  "create_sphere w input = operation w (S ''Create Sphere'')
     (thn (call w (primitive_uv_sphere_add (sphere_segments input) (sphere_ring_count input)
                     (sphere_radius input) (sphere_calc_uvs input) (sphere_enter_editmode input)
                     (sphere_align input) (sphere_location input) (sphere_rotation input)
                     (sphere_scale input)))
     (bnd (ask (active_object w)) (\<lambda>sphere.
        case sphere of
          Some c \<Rightarrow>
            thn (call w (set_name c (sphere_name input)))
            (ret (S ''Successfully created sphere '' @ quoted (sphere_name input) @
                  S '' with radius '' @ float_repr w (sphere_radius input) @
                  S '' (segments='' @ str_int (sphere_segments input) @
                  S '', rings='' @ str_int (sphere_ring_count input) @
                  S '') at location '' @ str_vec3 w (sphere_location input)))
        | None \<Rightarrow> ret (S ''Error: Sphere created but could not get reference to object''))))"

definition move_object :: "host \<Rightarrow> MoveObjectInput \<Rightarrow> pystr hostm" where
  "move_object w input = operation w (S ''Move Object'')
     (bnd (ask (\<lambda>l. objects_get w l (move_name input))) (\<lambda>obj.
        case obj of
          None \<Rightarrow> ret (S ''Error: Object '' @ quoted (move_name input) @ S '' not found'')
        | Some ob \<Rightarrow>
            thn (call w (set_active ob))
            (thn (call w (select_set ob True))
            (thn (call w (set_location ob (move_location input)))
            (ret (S ''Successfully moved object '' @ quoted (move_name input) @
                  S '' to location '' @ str_vec3 w (move_location input)))))))"

definition list_objects :: "host \<Rightarrow> pystr hostm" where
  "list_objects w = operation w (S ''List Objects'')
     (bnd (ask (objects_all w)) (\<lambda>objects.
        if length objects = 0 then ret (S ''Scene is empty - no objects found'')
        else
          bnd (each (\<lambda>obj.
                 bnd (ask (\<lambda>l. obj_name w l obj)) (\<lambda>name.
                 bnd (ask (\<lambda>l. obj_type w l obj)) (\<lambda>type.
                 bnd (ask (\<lambda>l. obj_location w l obj)) (\<lambda>location.
                 ret (S ''  - '' @ name @ S '' ('' @ type @ S '') at location '' @
                      str_vec3 w location))))) objects) (\<lambda>obj_list.
          ret (S ''Found '' @ str_nat (length objects) @ S '' object(s):'' @ [10] @
               join [10] obj_list))))"

definition delete_object :: "host \<Rightarrow> DeleteObjectInput \<Rightarrow> pystr hostm" where
  "delete_object w input = operation w (S ''Delete Object'')
     (bnd (ask (\<lambda>l. objects_get w l (delete_name input))) (\<lambda>obj.
        case obj of
          None \<Rightarrow> ret (S ''Error: Object '' @ quoted (delete_name input) @ S '' not found'')
        | Some ob \<Rightarrow>
            thn (call w (objects_remove ob))
            (ret (S ''Successfully deleted object '' @ quoted (delete_name input)))))"

definition select_object :: "host \<Rightarrow> SelectObjectInput \<Rightarrow> pystr hostm" where
  "select_object w input = operation w (S ''Select Object'')
     (bnd (ask (\<lambda>l. objects_get w l (select_name input))) (\<lambda>obj.
        case obj of
          None \<Rightarrow> ret (S ''Error: Object '' @ quoted (select_name input) @ S '' not found'')
        | Some ob \<Rightarrow>
            thn (call w (select_all (S ''DESELECT'')))
            (thn (call w (select_set ob True))
            (thn (call w (set_active ob))
            (ret (S ''Successfully selected object '' @ quoted (select_name input)))))))"

definition create_material :: "host \<Rightarrow> CreateMaterialInput \<Rightarrow> pystr hostm" where
  "create_material w input = operation w (S ''Create Material'')
     (bnd (ask (\<lambda>l. materials_contains w l (mat_name input))) (\<lambda>exists.
        if exists
        then ret (S ''Error: Material '' @ quoted (mat_name input) @ S '' already exists'')
        else
          thn (call w (materials_new (mat_name input)))
          (bnd (ask (created_material w)) (\<lambda>mat.
          bnd (ask (\<lambda>l. material_node_tree w l mat)) (\<lambda>node_tree.
          thn (if node_tree
               then bnd (ask (\<lambda>l. material_bsdf w l mat)) (\<lambda>bsdf.
                      if bsdf
                      then call w (set_base_color mat
                             (case mat_color input of (r, g, b) \<Rightarrow> (r, g, b, 1)))
                      else ret ())
               else ret ())
          (ret (S ''Successfully created material '' @ quoted (mat_name input) @
                S '' with color RGB'' @ str_vec3 w (mat_color input))))))))"

definition assign_material :: "host \<Rightarrow> AssignMaterialInput \<Rightarrow> pystr hostm" where
  "assign_material w input = operation w (S ''Assign Material'')
     (bnd (ask (\<lambda>l. objects_get w l (assign_object_name input))) (\<lambda>obj.
        case obj of
          None \<Rightarrow> ret (S ''Error: Object '' @ quoted (assign_object_name input) @ S '' not found'')
        | Some ob \<Rightarrow>
            bnd (ask (\<lambda>l. materials_get w l (assign_material_name input))) (\<lambda>mat.
              case mat of
                None \<Rightarrow>
                  ret (S ''Error: Material '' @ quoted (assign_material_name input) @
                       S '' not found'')
              | Some m \<Rightarrow>
                  bnd (ask (\<lambda>l. obj_data_materials w l ob)) (\<lambda>materials.
                  thn (if materials then call w (set_material_slot0 ob m)
                       else call w (materials_append ob m))
                  (ret (S ''Successfully assigned material '' @
                        quoted (assign_material_name input) @ S '' to object '' @
                        quoted (assign_object_name input)))))))"

definition rotate_object :: "host \<Rightarrow> RotateObjectInput \<Rightarrow> pystr hostm" where
  "rotate_object w input = operation w (S ''Rotate Object'')
     (bnd (ask (\<lambda>l. objects_get w l (rotate_name input))) (\<lambda>obj.
        case obj of
          None \<Rightarrow> ret (S ''Error: Object '' @ quoted (rotate_name input) @ S '' not found'')
        | Some ob \<Rightarrow>
            thn (call w (set_rotation_euler ob (rotate_rotation input)))
            (ret (S ''Successfully rotated object '' @ quoted (rotate_name input) @
                  S '' to rotation '' @ str_vec3 w (rotate_rotation input)))))"

definition scale_object :: "host \<Rightarrow> ScaleObjectInput \<Rightarrow> pystr hostm" where
  "scale_object w input = operation w (S ''Scale Object'')
     (bnd (ask (\<lambda>l. objects_get w l (scale_name input))) (\<lambda>obj.
        case obj of
          None \<Rightarrow> ret (S ''Error: Object '' @ quoted (scale_name input) @ S '' not found'')
        | Some ob \<Rightarrow>
            thn (call w (set_scale ob (scale_scale input)))
            (ret (S ''Successfully scaled object '' @ quoted (scale_name input) @
                  S '' to scale '' @ str_vec3 w (scale_scale input)))))"

definition get_object_info :: "host \<Rightarrow> GetObjectInfoInput \<Rightarrow> pystr hostm" where
  "get_object_info w input = operation w (S ''Get Object Info'')
     (bnd (ask (\<lambda>l. objects_get w l (info_name input))) (\<lambda>obj.
        case obj of
          None \<Rightarrow> ret (S ''Error: Object '' @ quoted (info_name input) @ S '' not found'')
        | Some ob \<Rightarrow>
            bnd (ask (\<lambda>l. obj_name w l ob)) (\<lambda>name.
            bnd (ask (\<lambda>l. obj_type w l ob)) (\<lambda>type.
            bnd (ask (\<lambda>l. obj_location w l ob)) (\<lambda>location.
            bnd (ask (\<lambda>l. obj_rotation_euler w l ob)) (\<lambda>rotation.
            bnd (ask (\<lambda>l. obj_scale w l ob)) (\<lambda>scale.
            bnd (ask (\<lambda>l. obj_type w l ob)) (\<lambda>type2.
            bnd (if type2 = S ''MESH'' then ask (\<lambda>l. obj_data w l ob) else ret False)
              (\<lambda>mesh.
            bnd (if mesh
                 then bnd (ask (\<lambda>l. mesh_vertices w l ob)) (\<lambda>vertices.
                      bnd (ask (\<lambda>l. mesh_polygons w l ob)) (\<lambda>polygons.
                      ret [S ''Vertices: '' @ str_nat vertices, S ''Faces: '' @ str_nat polygons]))
                 else ret []) (\<lambda>mesh_lines.
            ret (join [10]
              ([S ''Object: '' @ name,
                S ''Type: '' @ type,
                S ''Location: '' @ str_vec3 w location,
                S ''Rotation: '' @ str_vec3 w rotation,
                S ''Scale: '' @ str_vec3 w scale] @ mesh_lines))))))))))))"

definition create_camera :: "host \<Rightarrow> CreateCameraInput \<Rightarrow> pystr hostm" where
  "create_camera w input = operation w (S ''Create Camera'')
     (thn (call w (camera_add (cam_location input) (cam_rotation input)))
     (bnd (ask (active_object w)) (\<lambda>camera.
        case camera of
          None \<Rightarrow> ret (S ''Error: Camera created but could not get reference to object'')
        | Some c \<Rightarrow>
            thn (call w (set_name c (cam_name input)))
            (ret (S ''Successfully created camera '' @ quoted (cam_name input) @
                  S '' at location '' @ str_vec3 w (cam_location input) @
                  S '' with rotation '' @ str_vec3 w (cam_rotation input))))))"

definition create_light :: "host \<Rightarrow> CreateLightInput \<Rightarrow> pystr hostm" where
  "create_light w input = operation w (S ''Create Light'')
     (thn (if light_light_type input = S ''SUN''
             then call w (light_add (S ''SUN'') (light_location input))
           else if light_light_type input = S ''POINT''
             then call w (light_add (S ''POINT'') (light_location input))
           else if light_light_type input = S ''SPOT''
             then call w (light_add (S ''SPOT'') (light_location input))
           else if light_light_type input = S ''AREA''
             then call w (light_add (S ''AREA'') (light_location input))
           else ret ())
     (bnd (ask (active_object w)) (\<lambda>light.
        case light of
          None \<Rightarrow> ret (S ''Error: Light created but could not get reference to object'')
        | Some c \<Rightarrow>
            thn (call w (set_name c (light_name input)))
            (bnd (ask (\<lambda>l. obj_data w l c)) (\<lambda>data.
            thn (if data then call w (set_energy c (light_energy input)) else ret ())
            (ret (S ''Successfully created '' @ light_light_type input @ S '' light '' @
                  quoted (light_name input) @
                  S '' at location '' @ str_vec3 w (light_location input) @
                  S '' with energy '' @ float_repr w (light_energy input))))))))"

definition render_scene :: "host \<Rightarrow> RenderSceneInput \<Rightarrow> pystr hostm" where
  "render_scene w input = operation w (S ''Render Scene'')
     (bnd (ask (scene_camera w)) (\<lambda>camera.
        if camera = None
        then ret (S ''Error [Render Scene]: No active camera found. Create a camera before rendering.'')
        else
          thn (call w (set_resolution_x (render_resolution_x input)))
          (thn (call w (set_resolution_y (render_resolution_y input)))
          (thn (call w (set_render_filepath (render_filepath input)))
          (thn (call w (render_render True))
          (ret (S ''Successfully rendered scene to '' @ quoted (render_filepath input) @
                S '' at resolution '' @ str_int (render_resolution_x input) @ S ''x'' @
                str_int (render_resolution_y input))))))))"

definition save_file :: "host \<Rightarrow> SaveFileInput \<Rightarrow> pystr hostm" where
  "save_file w input = operation w (S ''Save File'')
     (let directory = path_dirname w (save_filepath input) in
      bnd (if directory \<noteq> [] then ask (\<lambda>l. path_exists w l directory) else ret True)
        (\<lambda>present.
      thn (if directory \<noteq> [] \<and> \<not> present then call w (makedirs directory True) else ret ())
      (thn (call w (save_as_mainfile (save_filepath input)))
      (ret (S ''Successfully saved Blender file to '' @ quoted (save_filepath input))))))"

definition open_file :: "host \<Rightarrow> OpenFileInput \<Rightarrow> pystr hostm" where
  "open_file w input = operation w (S ''Open File'')
     (bnd (ask (\<lambda>l. path_exists w l (open_filepath input))) (\<lambda>present.
        if \<not> present
        then ret (S ''Error [Open File]: File not found: '' @ quoted (open_filepath input))
        else
          thn (call w (open_mainfile (open_filepath input)))
          (ret (S ''Successfully opened Blender file '' @ quoted (open_filepath input)))))"

definition get_scene_filepath :: "host \<Rightarrow> pystr hostm" where
  "get_scene_filepath w = operation w (S ''Get Scene Filepath'')
     (bnd (ask (data_filepath w)) (\<lambda>filepath.
        if filepath \<noteq> [] then ret (S ''Current Blender file: '' @ filepath)
        else ret (S ''File not saved yet (unsaved file)'')))"

definition clear_scene :: "host \<Rightarrow> pystr hostm" where
  "clear_scene w = operation w (S ''Clear Scene'')
     (bnd (ask (objects_all w)) (\<lambda>objects.
        let count = length objects in
        if count = 0 then ret (S ''Scene was already empty'')
        else
          thn (call w (select_all (S ''SELECT'')))
          (thn (call w object_delete)
          (ret (S ''Successfully cleared scene - removed '' @ str_nat count @ S '' object(s)'')))))"

definition duplicate_object :: "host \<Rightarrow> DuplicateObjectInput \<Rightarrow> pystr hostm" where
  "duplicate_object w input = operation w (S ''Duplicate Object'')
     (bnd (ask (\<lambda>l. objects_get w l (duplicate_name input))) (\<lambda>obj.
        case obj of
          None \<Rightarrow> ret (S ''Error: Object '' @ quoted (duplicate_name input) @ S '' not found'')
        | Some ob \<Rightarrow>
            thn (call w (select_all (S ''DESELECT'')))
            (thn (call w (select_set ob True))
            (thn (call w (set_active ob))
            (thn (call w object_duplicate)
            (bnd (ask (active_object w)) (\<lambda>duplicate.
               case duplicate of
                 None \<Rightarrow> ret (S ''Error: Object duplicated but could not get reference'')
               | Some d \<Rightarrow>
                   thn (call w (set_name d (duplicate_new_name input)))
                   (thn (case duplicate_location input of
                           Some location \<Rightarrow> call w (set_location d location)
                         | None \<Rightarrow> ret ())
                   (ret (S ''Successfully duplicated object '' @ quoted (duplicate_name input) @
                         S '' as '' @ quoted (duplicate_new_name input)))))))))))"

definition set_active_camera :: "host \<Rightarrow> SetActiveCameraInput \<Rightarrow> pystr hostm" where
  "set_active_camera w input = operation w (S ''Set Active Camera'')
     (bnd (ask (\<lambda>l. objects_get w l (active_camera_name input))) (\<lambda>camera_obj.
        case camera_obj of
          None \<Rightarrow> ret (S ''Error: Camera '' @ quoted (active_camera_name input) @ S '' not found'')
        | Some c \<Rightarrow>
            bnd (ask (\<lambda>l. obj_type w l c)) (\<lambda>type.
              if type \<noteq> S ''CAMERA''
              then bnd (ask (\<lambda>l. obj_type w l c)) (\<lambda>type2.
                     ret (S ''Error: Object '' @ quoted (active_camera_name input) @
                          S '' is not a camera (type: '' @ type2 @ S '')''))
              else
                thn (call w (set_scene_camera c))
                (ret (S ''Successfully set '' @ quoted (active_camera_name input) @
                      S '' as active camera'')))))"

definition create_cylinder :: "host \<Rightarrow> CreateCylinderInput \<Rightarrow> pystr hostm" where
  "create_cylinder w input = operation w (S ''Create Cylinder'')
     (thn (call w (primitive_cylinder_add (cylinder_radius input) (cylinder_depth input)
                     (cylinder_location input) (cylinder_vertices input)))
     (bnd (ask (active_object w)) (\<lambda>cylinder.
        case cylinder of
          None \<Rightarrow> ret (S ''Error: Cylinder created but could not get reference to object'')
        | Some c \<Rightarrow>
            thn (call w (set_name c (cylinder_name input)))
            (ret (S ''Successfully created cylinder '' @ quoted (cylinder_name input) @
                  S '' with radius '' @ float_repr w (cylinder_radius input) @
                  S '' and depth '' @ float_repr w (cylinder_depth input) @
                  S '' at location '' @ str_vec3 w (cylinder_location input))))))"

definition create_plane :: "host \<Rightarrow> CreatePlaneInput \<Rightarrow> pystr hostm" where
  "create_plane w input = operation w (S ''Create Plane'')
     (thn (call w (primitive_plane_add (plane_size input) (plane_location input)))
     (bnd (ask (active_object w)) (\<lambda>plane.
        case plane of
          None \<Rightarrow> ret (S ''Error: Plane created but could not get reference to object'')
        | Some c \<Rightarrow>
            thn (call w (set_name c (plane_name input)))
            (ret (S ''Successfully created plane '' @ quoted (plane_name input) @
                  S '' with size '' @ float_repr w (plane_size input) @
                  S '' at location '' @ str_vec3 w (plane_location input))))))"

section \<open>Tools (src/src/tools.py)\<close>

text \<open>
  Every tool that takes arguments has one shape:
  \<^verbatim>\<open>
    try:
        input_model = M(...)
        return handler(input_model)
    except Exception as e:
        return f"Error: {str(e)}"
  \<close>
  \<open>tool\<close> is that shape: building the model either raises the \<open>ValidationError\<close> or
  yields the model, which is handed to the handler (the invocation is counted); whatever
  is raised inside the \<open>try\<close> becomes a result string.  \<open>tool0\<close> is the same for the
  tools without arguments.  \<open>get_scene_filepath_tool\<close> has no \<open>try\<close> of its own.
\<close>

definition invoked :: "state \<Rightarrow> state" where
  "invoked s = s\<lparr>handler_calls := Suc (handler_calls s)\<rparr>"

definition tool :: "host \<Rightarrow> ValidationError + 'm \<Rightarrow> ('m \<Rightarrow> pystr hostm) \<Rightarrow> pystr hostm" where
  "tool w input_model handler = (\<lambda>s.
     case (case input_model of
             Inl ve \<Rightarrow> (Inl (ValidationError ve), s)
           | Inr m \<Rightarrow> handler m (invoked s)) of
       (Inl e, s') \<Rightarrow> (Inr (S ''Error: '' @ str_exn w e), s')
     | (Inr r, s') \<Rightarrow> (Inr r, s'))"

definition tool0 :: "host \<Rightarrow> pystr hostm \<Rightarrow> pystr hostm" where
  "tool0 w handler = (\<lambda>s.
     case handler (invoked s) of
       (Inl e, s') \<Rightarrow> (Inr (S ''Error: '' @ str_exn w e), s')
     | (Inr r, s') \<Rightarrow> (Inr r, s'))"

definition create_cube_tool :: "host \<Rightarrow> pystr \<Rightarrow> rat \<Rightarrow> vec3 \<Rightarrow> pystr hostm" where
  "create_cube_tool w name size' location =
     tool w (new_CreateCubeInput name size' location) (create_cube w)"

definition create_sphere_tool :: "host \<Rightarrow> pystr \<Rightarrow> int \<Rightarrow> int \<Rightarrow> rat \<Rightarrow> bool \<Rightarrow> bool \<Rightarrow> pystr \<Rightarrow> vec3 \<Rightarrow> vec3 \<Rightarrow> vec3 \<Rightarrow> pystr hostm" where
  "create_sphere_tool w name segments ring_count radius calc_uvs enter_editmode align location rotation scale =
     tool w (new_CreateSphereInput name segments ring_count radius calc_uvs enter_editmode align location rotation scale) (create_sphere w)"

definition move_object_tool :: "host \<Rightarrow> pystr \<Rightarrow> vec3 \<Rightarrow> pystr hostm" where
  "move_object_tool w name location =
     tool w (new_MoveObjectInput name location) (move_object w)"

definition list_objects_tool :: "host \<Rightarrow> pystr hostm" where
  "list_objects_tool w = tool0 w (list_objects w)"

definition delete_object_tool :: "host \<Rightarrow> pystr \<Rightarrow> pystr hostm" where
  "delete_object_tool w name =
     tool w (new_DeleteObjectInput name) (delete_object w)"

definition select_object_tool :: "host \<Rightarrow> pystr \<Rightarrow> pystr hostm" where
  "select_object_tool w name =
     tool w (new_SelectObjectInput name) (select_object w)"

definition create_material_tool :: "host \<Rightarrow> pystr \<Rightarrow> vec3 \<Rightarrow> pystr hostm" where
  "create_material_tool w name color =
     tool w (new_CreateMaterialInput name color) (create_material w)"

definition assign_material_tool :: "host \<Rightarrow> pystr \<Rightarrow> pystr \<Rightarrow> pystr hostm" where
  "assign_material_tool w object_name material_name =
     tool w (new_AssignMaterialInput object_name material_name) (assign_material w)"

definition rotate_object_tool :: "host \<Rightarrow> pystr \<Rightarrow> vec3 \<Rightarrow> pystr hostm" where
  "rotate_object_tool w name rotation =
     tool w (new_RotateObjectInput name rotation) (rotate_object w)"

definition scale_object_tool :: "host \<Rightarrow> pystr \<Rightarrow> vec3 \<Rightarrow> pystr hostm" where
  "scale_object_tool w name scale =
     tool w (new_ScaleObjectInput name scale) (scale_object w)"

definition get_object_info_tool :: "host \<Rightarrow> pystr \<Rightarrow> pystr hostm" where
  "get_object_info_tool w name =
     tool w (new_GetObjectInfoInput name) (get_object_info w)"

definition create_camera_tool :: "host \<Rightarrow> pystr \<Rightarrow> vec3 \<Rightarrow> vec3 \<Rightarrow> pystr hostm" where
  "create_camera_tool w name location rotation =
     tool w (new_CreateCameraInput name location rotation) (create_camera w)"

definition create_light_tool :: "host \<Rightarrow> pystr \<Rightarrow> pystr \<Rightarrow> vec3 \<Rightarrow> rat \<Rightarrow> pystr hostm" where
  "create_light_tool w name light_type location energy =
     tool w (new_CreateLightInput name light_type location energy) (create_light w)"

definition render_scene_tool :: "host \<Rightarrow> pystr \<Rightarrow> int \<Rightarrow> int \<Rightarrow> pystr hostm" where
  "render_scene_tool w filepath resolution_x resolution_y =
     tool w (new_RenderSceneInput filepath resolution_x resolution_y) (render_scene w)"

definition clear_scene_tool :: "host \<Rightarrow> pystr hostm" where
  "clear_scene_tool w = tool0 w (clear_scene w)"

definition duplicate_object_tool :: "host \<Rightarrow> pystr \<Rightarrow> pystr \<Rightarrow> (vec3 option) \<Rightarrow> pystr hostm" where
  "duplicate_object_tool w name new_name location =
     tool w (new_DuplicateObjectInput name new_name location) (duplicate_object w)"

definition set_active_camera_tool :: "host \<Rightarrow> pystr \<Rightarrow> pystr hostm" where
  "set_active_camera_tool w camera_name =
     tool w (new_SetActiveCameraInput camera_name) (set_active_camera w)"

definition create_cylinder_tool :: "host \<Rightarrow> pystr \<Rightarrow> rat \<Rightarrow> rat \<Rightarrow> vec3 \<Rightarrow> int \<Rightarrow> pystr hostm" where
  "create_cylinder_tool w name radius depth location vertices =
     tool w (new_CreateCylinderInput name radius depth location vertices) (create_cylinder w)"

definition create_plane_tool :: "host \<Rightarrow> pystr \<Rightarrow> rat \<Rightarrow> vec3 \<Rightarrow> pystr hostm" where
  "create_plane_tool w name size' location =
     tool w (new_CreatePlaneInput name size' location) (create_plane w)"

definition get_scene_filepath_tool :: "host \<Rightarrow> pystr hostm" where
  "get_scene_filepath_tool w = (\<lambda>s. get_scene_filepath w (invoked s))"

definition save_file_tool :: "host \<Rightarrow> pystr \<Rightarrow> pystr hostm" where
  "save_file_tool w filepath =
     tool w (new_SaveFileInput filepath) (save_file w)"

definition open_file_tool :: "host \<Rightarrow> pystr \<Rightarrow> pystr hostm" where
  "open_file_tool w filepath =
     tool w (new_OpenFileInput filepath) (open_file w)"

text \<open>
  The tools are registered by name with the transport, which dispatches a request to the
  tool it names.  A request is the name together with the arguments of that tool.
\<close>

datatype tool_call =
    create_cube_call pystr rat vec3
  | create_sphere_call pystr int int rat bool bool pystr vec3 vec3 vec3
  | move_object_call pystr vec3
  | list_objects_call
  | delete_object_call pystr
  | select_object_call pystr
  | create_material_call pystr vec3
  | assign_material_call pystr pystr
  | rotate_object_call pystr vec3
  | scale_object_call pystr vec3
  | get_object_info_call pystr
  | create_camera_call pystr vec3 vec3
  | create_light_call pystr pystr vec3 rat
  | render_scene_call pystr int int
  | clear_scene_call
  | duplicate_object_call pystr pystr "vec3 option"
  | set_active_camera_call pystr
  | create_cylinder_call pystr rat rat vec3 int
  | create_plane_call pystr rat vec3
  | get_scene_filepath_call
  | save_file_call pystr
  | open_file_call pystr

fun invoke :: "host \<Rightarrow> tool_call \<Rightarrow> pystr hostm" where
  "invoke w (create_cube_call name size' location) = create_cube_tool w name size' location"
| "invoke w (create_sphere_call name segments ring_count radius calc_uvs enter_editmode align location rotation scale) = create_sphere_tool w name segments ring_count radius calc_uvs enter_editmode align location rotation scale"
| "invoke w (move_object_call name location) = move_object_tool w name location"
| "invoke w (list_objects_call) = list_objects_tool w"
| "invoke w (delete_object_call name) = delete_object_tool w name"
| "invoke w (select_object_call name) = select_object_tool w name"
| "invoke w (create_material_call name color) = create_material_tool w name color"
| "invoke w (assign_material_call object_name material_name) = assign_material_tool w object_name material_name"
| "invoke w (rotate_object_call name rotation) = rotate_object_tool w name rotation"
| "invoke w (scale_object_call name scale) = scale_object_tool w name scale"
| "invoke w (get_object_info_call name) = get_object_info_tool w name"
| "invoke w (create_camera_call name location rotation) = create_camera_tool w name location rotation"
| "invoke w (create_light_call name light_type location energy) = create_light_tool w name light_type location energy"
| "invoke w (render_scene_call filepath resolution_x resolution_y) = render_scene_tool w filepath resolution_x resolution_y"
| "invoke w (clear_scene_call) = clear_scene_tool w"
| "invoke w (duplicate_object_call name new_name location) = duplicate_object_tool w name new_name location"
| "invoke w (set_active_camera_call camera_name) = set_active_camera_tool w camera_name"
| "invoke w (create_cylinder_call name radius depth location vertices) = create_cylinder_tool w name radius depth location vertices"
| "invoke w (create_plane_call name size' location) = create_plane_tool w name size' location"
| "invoke w (get_scene_filepath_call) = get_scene_filepath_tool w"
| "invoke w (save_file_call filepath) = save_file_tool w filepath"
| "invoke w (open_file_call filepath) = open_file_tool w filepath"

fun validation :: "tool_call \<Rightarrow> ValidationError + unit" where
  \<comment> \<open>what building the input model of a request raises, if anything\<close>
  "validation (create_cube_call name size' location) = map_sum id (\<lambda>_. ()) (new_CreateCubeInput name size' location)"
| "validation (create_sphere_call name segments ring_count radius calc_uvs enter_editmode align location rotation scale) = map_sum id (\<lambda>_. ()) (new_CreateSphereInput name segments ring_count radius calc_uvs enter_editmode align location rotation scale)"
| "validation (move_object_call name location) = map_sum id (\<lambda>_. ()) (new_MoveObjectInput name location)"
| "validation list_objects_call = Inr ()"
| "validation (delete_object_call name) = map_sum id (\<lambda>_. ()) (new_DeleteObjectInput name)"
| "validation (select_object_call name) = map_sum id (\<lambda>_. ()) (new_SelectObjectInput name)"
| "validation (create_material_call name color) = map_sum id (\<lambda>_. ()) (new_CreateMaterialInput name color)"
| "validation (assign_material_call object_name material_name) = map_sum id (\<lambda>_. ()) (new_AssignMaterialInput object_name material_name)"
| "validation (rotate_object_call name rotation) = map_sum id (\<lambda>_. ()) (new_RotateObjectInput name rotation)"
| "validation (scale_object_call name scale) = map_sum id (\<lambda>_. ()) (new_ScaleObjectInput name scale)"
| "validation (get_object_info_call name) = map_sum id (\<lambda>_. ()) (new_GetObjectInfoInput name)"
| "validation (create_camera_call name location rotation) = map_sum id (\<lambda>_. ()) (new_CreateCameraInput name location rotation)"
| "validation (create_light_call name light_type location energy) = map_sum id (\<lambda>_. ()) (new_CreateLightInput name light_type location energy)"
| "validation (render_scene_call filepath resolution_x resolution_y) = map_sum id (\<lambda>_. ()) (new_RenderSceneInput filepath resolution_x resolution_y)"
| "validation clear_scene_call = Inr ()"
| "validation (duplicate_object_call name new_name location) = map_sum id (\<lambda>_. ()) (new_DuplicateObjectInput name new_name location)"
| "validation (set_active_camera_call camera_name) = map_sum id (\<lambda>_. ()) (new_SetActiveCameraInput camera_name)"
| "validation (create_cylinder_call name radius depth location vertices) = map_sum id (\<lambda>_. ()) (new_CreateCylinderInput name radius depth location vertices)"
| "validation (create_plane_call name size' location) = map_sum id (\<lambda>_. ()) (new_CreatePlaneInput name size' location)"
| "validation get_scene_filepath_call = Inr ()"
| "validation (save_file_call filepath) = map_sum id (\<lambda>_. ()) (new_SaveFileInput filepath)"
| "validation (open_file_call filepath) = map_sum id (\<lambda>_. ()) (new_OpenFileInput filepath)"


section \<open>The output filter (src/blender\_mcp\_filter.py)\<close>

subsection \<open>Library functions: UTF-8 and JSON\<close>

text \<open>
  \<open>bytes.decode('utf-8', errors='ignore')\<close> as CPython does it.  An ASCII byte is its
  own character.  A lead byte followed by the continuation bytes it needs gives one
  character.  A byte that cannot start a sequence is dropped.  When the k-th byte after a
  lead byte is not the continuation the lead needs, the lead and the k-1 good
  continuation bytes are dropped and decoding resumes at the offending byte.  A sequence
  cut off by the end of the data is dropped.  Overlong forms, surrogates and code points
  above \<open>0x10FFFF\<close> are excluded by the ranges of the second byte.  \<open>utf8\<close> works on the
  values of the bytes.
\<close>

definition continuation :: "nat \<Rightarrow> bool" where
  "continuation c \<longleftrightarrow> 0x80 \<le> c \<and> c \<le> 0xBF"

fun utf8 :: "nat list \<Rightarrow> pystr" where
  "utf8 [] = []"
| "utf8 (c # s) =
     (if c < 0x80 then c # utf8 s
      else if c < 0xC2 then utf8 s
      else if c < 0xE0 then
        (case s of
           [] \<Rightarrow> []
         | c2 # s2 \<Rightarrow>
             if continuation c2 then ((c - 0xC0) * 64 + (c2 - 0x80)) # utf8 s2 else utf8 s)
      else if c < 0xF0 then
        (case s of
           [] \<Rightarrow> []
         | c2 # s2 \<Rightarrow>
             if \<not> continuation c2 \<or> (if c2 < 0xA0 then c = 0xE0 else c = 0xED) then utf8 s
             else
               (case s2 of
                  [] \<Rightarrow> []
                | c3 # s3 \<Rightarrow>
                    if \<not> continuation c3 then utf8 s2
                    else ((c - 0xE0) * 4096 + (c2 - 0x80) * 64 + (c3 - 0x80)) # utf8 s3))
      else if c < 0xF5 then
        (case s of
           [] \<Rightarrow> []
         | c2 # s2 \<Rightarrow>
             if \<not> continuation c2 \<or> (if c2 < 0x90 then c = 0xF0 else c = 0xF4) then utf8 s
             else
               (case s2 of
                  [] \<Rightarrow> []
                | c3 # s3 \<Rightarrow>
                    if \<not> continuation c3 then utf8 s2
                    else
                      (case s3 of
                         [] \<Rightarrow> []
                       | c4 # s4 \<Rightarrow>
                           if \<not> continuation c4 then utf8 s3
                           else ((c - 0xF0) * 262144 + (c2 - 0x80) * 4096 + (c3 - 0x80) * 64 +
                                 (c4 - 0x80)) # utf8 s4)))
      else utf8 s)"

definition decode :: "pybytes \<Rightarrow> pystr" where
  "decode b = utf8 (map of_char b)"

definition utf8_char :: "nat \<Rightarrow> nat list" where
  "utf8_char c =
     (if c < 0x80 then [c]
      else if c < 0x800 then [0xC0 + c div 64, 0x80 + c mod 64]
      else if c < 0x10000 then [0xE0 + c div 4096, 0x80 + c div 64 mod 64, 0x80 + c mod 64]
      else [0xF0 + c div 262144, 0x80 + c div 4096 mod 64, 0x80 + c div 64 mod 64,
            0x80 + c mod 64])"

definition encode :: "pystr \<Rightarrow> pybytes" where
  \<comment> \<open>\<open>str.encode('utf-8')\<close>; the filter encodes decoded text only, which holds no
      surrogate\<close>
  "encode s = map char_of (concat (map utf8_char s))"

text \<open>
  \<open>json.loads(s)\<close> either returns or raises \<open>JSONDecodeError\<close>; the filter uses only
  which of the two happens.  \<open>json_loads_ok\<close> recognises the texts that \<open>json.loads\<close>
  accepts, reading the text once with a stack of the open containers (\<open>True\<close> for an
  object, \<open>False\<close> for an array): the JSON grammar with the whitespace \<open>' \t\n\r'\<close>,
  strings without raw control characters, the escapes \<open>\" \\ \/ \b \f \n \r \t \uXXXX\<close>,
  numbers \<open>-?(0|[1-9][0-9]*)(\.[0-9]+)?([eE][-+]?[0-9]+)?\<close>, the literals \<open>true\<close>,
  \<open>false\<close>, \<open>null\<close> and Python's \<open>NaN\<close>, \<open>Infinity\<close>, \<open>-Infinity\<close>, and nothing but
  whitespace after the value.  The limits of the interpreter (recursion depth, digits of
  an integer) are not modelled.
\<close>

datatype numstate = NMinus | NZero | NInt | NDot | NFrac | NExp | NExpSign | NExpDig

datatype jmode =
    Value
  | ArrStart
  | ObjStart
  | Key
  | Colon
  | After
  | Str bool
  | Esc bool
  | Hex bool nat
  | Lit pystr
  | Num numstate

type_synonym jstate = "jmode \<times> bool list"

definition json_ws :: "nat \<Rightarrow> bool" where
  "json_ws c \<longleftrightarrow> c = 32 \<or> c = 9 \<or> c = 10 \<or> c = 13"

definition digit :: "nat \<Rightarrow> bool" where
  "digit c \<longleftrightarrow> 48 \<le> c \<and> c \<le> 57"

definition hexdigit :: "nat \<Rightarrow> bool" where
  "hexdigit c \<longleftrightarrow> digit c \<or> (97 \<le> c \<and> c \<le> 102) \<or> (65 \<le> c \<and> c \<le> 70)"

definition value_start :: "nat \<Rightarrow> bool list \<Rightarrow> jstate option" where
  "value_start c st =
     (if c = 123 then Some (ObjStart, True # st)
      else if c = 91 then Some (ArrStart, False # st)
      else if c = 34 then Some (Str False, st)
      else if c = 45 then Some (Num NMinus, st)
      else if c = 48 then Some (Num NZero, st)
      else if digit c then Some (Num NInt, st)
      else if c = 116 then Some (Lit (S ''rue''), st)
      else if c = 102 then Some (Lit (S ''alse''), st)
      else if c = 110 then Some (Lit (S ''ull''), st)
      else if c = 78 then Some (Lit (S ''aN''), st)
      else if c = 73 then Some (Lit (S ''nfinity''), st)
      else None)"

definition after_value :: "nat \<Rightarrow> bool list \<Rightarrow> jstate option" where
  "after_value c st =
     (if json_ws c then Some (After, st)
      else if c = 44 then
        (case st of [] \<Rightarrow> None | True # _ \<Rightarrow> Some (Key, st) | False # _ \<Rightarrow> Some (Value, st))
      else if c = 125 then (case st of True # st' \<Rightarrow> Some (After, st') | _ \<Rightarrow> None)
      else if c = 93 then (case st of False # st' \<Rightarrow> Some (After, st') | _ \<Rightarrow> None)
      else None)"

fun number :: "numstate \<Rightarrow> nat \<Rightarrow> bool list \<Rightarrow> jstate option" where
  "number NMinus c st =
     (if c = 48 then Some (Num NZero, st) else if digit c then Some (Num NInt, st)
      else if c = 73 then Some (Lit (S ''nfinity''), st) else None)"
| "number NZero c st =
     (if c = 46 then Some (Num NDot, st) else if c = 101 \<or> c = 69 then Some (Num NExp, st)
      else after_value c st)"
| "number NInt c st =
     (if digit c then Some (Num NInt, st) else if c = 46 then Some (Num NDot, st)
      else if c = 101 \<or> c = 69 then Some (Num NExp, st) else after_value c st)"
| "number NDot c st = (if digit c then Some (Num NFrac, st) else None)"
| "number NFrac c st =
     (if digit c then Some (Num NFrac, st) else if c = 101 \<or> c = 69 then Some (Num NExp, st)
      else after_value c st)"
| "number NExp c st =
     (if digit c then Some (Num NExpDig, st) else if c = 43 \<or> c = 45 then Some (Num NExpSign, st)
      else None)"
| "number NExpSign c st = (if digit c then Some (Num NExpDig, st) else None)"
| "number NExpDig c st = (if digit c then Some (Num NExpDig, st) else after_value c st)"

fun jstep :: "jstate \<Rightarrow> nat \<Rightarrow> jstate option" where
  "jstep (Value, st) c = (if json_ws c then Some (Value, st) else value_start c st)"
| "jstep (ArrStart, st) c =
     (if json_ws c then Some (ArrStart, st)
      else if c = 93 then Some (After, tl st) else value_start c st)"
| "jstep (ObjStart, st) c =
     (if json_ws c then Some (ObjStart, st)
      else if c = 34 then Some (Str True, st)
      else if c = 125 then Some (After, tl st) else None)"
| "jstep (Key, st) c =
     (if json_ws c then Some (Key, st) else if c = 34 then Some (Str True, st) else None)"
| "jstep (Colon, st) c =
     (if json_ws c then Some (Colon, st) else if c = 58 then Some (Value, st) else None)"
| "jstep (After, st) c = after_value c st"
| "jstep (Str k, st) c =
     (if c = 34 then Some (if k then Colon else After, st)
      else if c = 92 then Some (Esc k, st)
      else if c < 32 then None else Some (Str k, st))"
| "jstep (Esc k, st) c =
     (if c \<in> set [34, 92, 47, 98, 102, 110, 114, 116] then Some (Str k, st)
      else if c = 117 then Some (Hex k 4, st) else None)"
| "jstep (Hex k n, st) c =
     (if \<not> hexdigit c then None else if n = 1 then Some (Str k, st) else Some (Hex k (n - 1), st))"
| "jstep (Lit r, st) c =
     (case r of
        [] \<Rightarrow> None
      | x # xs \<Rightarrow> if c \<noteq> x then None else if xs = [] then Some (After, st) else Some (Lit xs, st))"
| "jstep (Num ns, st) c = number ns c st"

fun jrun :: "jstate \<Rightarrow> pystr \<Rightarrow> jstate option" where
  "jrun q [] = Some q"
| "jrun q (c # cs) = (case jstep q c of None \<Rightarrow> None | Some q' \<Rightarrow> jrun q' cs)"

definition final :: "jmode \<Rightarrow> bool" where
  "final m \<longleftrightarrow> m = After \<or> m = Num NZero \<or> m = Num NInt \<or> m = Num NFrac \<or> m = Num NExpDig"

definition json_loads_ok :: "pystr \<Rightarrow> bool" where
  "json_loads_ok s = (case jrun (Value, []) s of None \<Rightarrow> False | Some (m, st) \<Rightarrow> st = [] \<and> final m)"

subsection \<open>Extraction\<close>

fun find_char :: "nat \<Rightarrow> pystr \<Rightarrow> nat option" where
  \<comment> \<open>\<open>text.find(c)\<close> for a single character; \<open>None\<close> stands for \<open>-1\<close>\<close>
  "find_char c [] = None"
| "find_char c (x # xs) = (if x = c then Some 0 else map_option Suc (find_char c xs))"

definition json_start :: "pystr \<Rightarrow> bool" where
  \<comment> \<open>\<open>s.startswith(('{', '['))\<close>\<close>
  "json_start s = (case s of [] \<Rightarrow> False | c # _ \<Rightarrow> c = 123 \<or> c = 91)"

text \<open>
  \<open>_extract_json_from_buffer\<close> mutates the buffer and writes to \<open>sys.stdout.buffer\<close>.  The
  model takes the buffer and the list of the units written so far (one unit for each
  \<open>write\<close> followed by \<open>flush\<close>) and returns both.  As in the source, positions found in
  the decoded text are used as positions in the bytes.
\<close>

function extract_json_from_buffer :: "pybytes \<Rightarrow> pybytes list \<Rightarrow> pybytes \<times> pybytes list" where
  "extract_json_from_buffer buffer out =
     (if buffer = [] then (buffer, out)
      else
        let text = decode buffer in
        case (case find_char 123 text of None \<Rightarrow> find_char 91 text | Some i \<Rightarrow> Some i) of
          None \<Rightarrow> (if length buffer > 1000 then [] else buffer, out)
        | Some start_idx \<Rightarrow>
            let buffer1 = drop start_idx buffer;
                text1 = drop start_idx text;
                line = (case find_char 10 text1 of
                          None \<Rightarrow> None
                        | Some newline_idx \<Rightarrow>
                            let json_str = strip (take newline_idx text1) in
                            if json_start json_str \<and> json_loads_ok json_str
                            then Some (newline_idx, json_str) else None)
            in case line of
                 Some (newline_idx, json_str) \<Rightarrow>
                   extract_json_from_buffer (drop (newline_idx + 1) buffer1)
                     (out @ [encode (json_str @ [10])])
               | None \<Rightarrow>
                   let json_str = strip text1 in
                   if json_start json_str \<and> json_loads_ok json_str
                   then ([], out @ [encode json_str])
                   else (buffer1, out))"
  by pat_completeness auto
termination
  by (relation "measure (\<lambda>(buffer, out). length buffer)") auto

subsection \<open>The reading loop\<close>

text \<open>
  One pass of the \<open>while True\<close> loop of \<open>filter_stdout\<close>, given what
  \<open>process.stdout.read(4096)\<close> returned (\<open>[]\<close> also when it raised) and, for an empty
  read, whether \<open>process.poll()\<close> says the process has ended.  \<open>stopped\<close> is set by the
  \<open>break\<close>.  \<open>filter_stdout\<close> runs the loop over the reads of a process.
\<close>

record fstate =
  buf :: pybytes
  written :: "pybytes list"
  stopped :: bool

definition filter_read :: "pybytes \<times> bool \<Rightarrow> fstate \<Rightarrow> fstate" where
  "filter_read r st = (case r of (data, ended) \<Rightarrow>
     if stopped st then st
     else if data = [] then
       (if ended then
          (let text = strip (decode (buf st)) in
           if buf st \<noteq> [] \<and> json_start text \<and> json_loads_ok text
           then st\<lparr>written := written st @ [buf st], stopped := True\<rparr>
           else st\<lparr>stopped := True\<rparr>)
        else
          (case extract_json_from_buffer (buf st) (written st) of
             (b, w) \<Rightarrow> st\<lparr>buf := b, written := w\<rparr>))
     else
       (case extract_json_from_buffer (buf st @ data) (written st) of
          (b, w) \<Rightarrow> st\<lparr>buf := (if length b > 100000 then [] else b), written := w\<rparr>))"

definition filter_stdout :: "(pybytes \<times> bool) list \<Rightarrow> fstate \<Rightarrow> fstate" where
  "filter_stdout reads st = fold filter_read reads st"

definition filter_init :: fstate where
  "filter_init = \<lparr>buf = [], written = [], stopped = False\<rparr>"

section \<open>Vocabulary of the properties\<close>

definition rejects :: "string \<Rightarrow> ValidationError + 'a \<Rightarrow> bool" where
  \<comment> \<open>building the model raises, and the error has an entry for the field\<close>
  "rejects f r = (case r of Inl e \<Rightarrow> f \<in> set (map fst e) | Inr m \<Rightarrow> False)"

definition name_length_ok :: "pystr \<Rightarrow> bool" where
  "name_length_ok n \<longleftrightarrow> 1 \<le> length n \<and> length n \<le> 63"

definition name_clean :: "pystr \<Rightarrow> bool" where
  \<comment> \<open>none of \<open>/ \ : * ? " < > |\<close> occurs\<close>
  "name_clean n \<longleftrightarrow> set n \<inter> set invalid_chars = {}"





definition not_found :: "pystr \<Rightarrow> pystr \<Rightarrow> pystr" where
  \<comment> \<open>\<open>"Error: <Kind> '<name>' not found"\<close>\<close>
  "not_found kind n = S ''Error: '' @ kind @ S '' '' @ quoted n @ S '' not found''"

text \<open>
  Three hosts and a state to run the tools on: a present host with an empty scene in which
  nothing raises and a new object gets the reference 0; the same host in which every
  lookup of an object finds the object 0; and the empty scene in which every change
  raises.  Their \<open>float_repr\<close> writes a whole number as Python does (\<open>2.0\<close>).
\<close>

definition empty_scene :: host where
  "empty_scene = \<lparr>
     bpy_present = True,
     float_repr = (\<lambda>r. if r = of_int \<lfloor>r\<rfloor> then str_int \<lfloor>r\<rfloor> @ S ''.0'' else S ''<float>''),
     validation_error_str = (\<lambda>ve. str_nat (length ve) @ S '' validation error(s)''),
     path_dirname = (\<lambda>p. []),
     perform = (\<lambda>l c. None),
     objects_get = (\<lambda>l n. Inr None),
     objects_all = (\<lambda>l. Inr []),
     materials_get = (\<lambda>l n. Inr None),
     materials_contains = (\<lambda>l n. Inr False),
     created_material = (\<lambda>l. Inr 0),
     material_node_tree = (\<lambda>l m. Inr False),
     material_bsdf = (\<lambda>l m. Inr False),
     active_object = (\<lambda>l. Inr (if l = [] then None else Some 0)),
     obj_name = (\<lambda>l ob. Inr []),
     obj_type = (\<lambda>l ob. Inr (S ''MESH'')),
     obj_location = (\<lambda>l ob. Inr (0, 0, 0)),
     obj_rotation_euler = (\<lambda>l ob. Inr (0, 0, 0)),
     obj_scale = (\<lambda>l ob. Inr (1, 1, 1)),
     obj_data = (\<lambda>l ob. Inr True),
     obj_data_materials = (\<lambda>l ob. Inr False),
     mesh_vertices = (\<lambda>l ob. Inr 0),
     mesh_polygons = (\<lambda>l ob. Inr 0),
     scene_camera = (\<lambda>l. Inr None),
     data_filepath = (\<lambda>l. Inr []),
     path_exists = (\<lambda>l p. Inr False)\<rparr>"

definition scene_with_object :: host where
  "scene_with_object = empty_scene\<lparr>objects_get := (\<lambda>l n. Inr (Some 0))\<rparr>"

definition failing_host :: host where
  "failing_host = empty_scene\<lparr>perform := (\<lambda>l c. Some (OtherException (S ''boom'')))\<rparr>"

definition start :: state where
  "start = \<lparr>log = [], handler_calls = 0\<rparr>"



definition ascii :: "pystr \<Rightarrow> bool" where
  "ascii s \<longleftrightarrow> (\<forall>c\<in>set s. c < 128)"








definition json_unit :: "pybytes \<Rightarrow> bool" where
  "json_unit u \<longleftrightarrow> encode (decode u) = u \<and> json_loads_ok (decode u)"

section \<open>Properties of the input models\<close>

lemma rejects_if: "rejects f (if c then Inr x else Inl e) = (\<not> c \<and> f \<in> fst ` set e)"
  by (auto simp: rejects_def)

lemma fst_field_errors: "fst ` set (field_errors g r) = (if isl r then {g} else {})"
  by (cases r) (auto simp: field_errors_def)

lemma field_errors_Nil: "field_errors g r = [] \<longleftrightarrow> \<not> isl r"
  by (cases r) (auto simp: field_errors_def)

lemma isl_checked_name:
  "isl (after (str_field lo (Some hi) n) validate_name) \<longleftrightarrow>
     \<not> (lo \<le> length n \<and> length n \<le> hi \<and> set n \<inter> set invalid_chars = {})"
  by (auto simp: after_def str_field_def validate_name_def)

lemma projr_checked_name:
  "\<not> isl (after (str_field lo (Some hi) n) validate_name) \<Longrightarrow>
     projr (after (str_field lo (Some hi) n) validate_name) = strip n"
  by (auto simp: after_def str_field_def validate_name_def split: if_splits)

lemma isl_plain_name:
  "isl (str_field lo (Some hi) n) \<longleftrightarrow> \<not> (lo \<le> length n \<and> length n \<le> hi)"
  by (auto simp: str_field_def)

lemma projr_plain_name:
  "\<not> isl (str_field lo (Some hi) n) \<Longrightarrow> projr (str_field lo (Some hi) n) = n"
  by (auto simp: str_field_def split: if_splits)

lemma isl_float_gt_le: "isl (float_gt_le lo hi v) \<longleftrightarrow> \<not> (lo < v \<and> v \<le> hi)"
  by (auto simp: float_gt_le_def)

lemma isl_float_ge_le: "isl (float_ge_le lo hi v) \<longleftrightarrow> \<not> (lo \<le> v \<and> v \<le> hi)"
  by (auto simp: float_ge_le_def)

lemma isl_validate_rotation: "isl (validate_rotation v) \<longleftrightarrow> \<not> all_within lit_6_28318 v"
  by (auto simp: validate_rotation_def)

lemma isl_validate_vector3: "isl (validate_vector3 v) \<longleftrightarrow> \<not> all_within 10000 v"
  by (auto simp: validate_vector3_def)

lemmas model_simps = Let_def rejects_if image_Un fst_field_errors field_errors_Nil

subsection \<open>Name fields\<close>

lemma CreateCubeInput_name_checked:
  "rejects ''name'' (new_CreateCubeInput n s l) \<longleftrightarrow>
     \<not> (name_length_ok n \<and> name_clean n)"
  "new_CreateCubeInput n s l = Inr m \<Longrightarrow> cube_name m = strip n"
  by (auto simp: new_CreateCubeInput_def name_length_ok_def name_clean_def model_simps isl_checked_name isl_plain_name projr_checked_name split: if_splits)

lemma CreateSphereInput_name_checked:
  "rejects ''name'' (new_CreateSphereInput n sg rc r cu ee al l ro sc) \<longleftrightarrow>
     \<not> (name_length_ok n \<and> name_clean n)"
  "new_CreateSphereInput n sg rc r cu ee al l ro sc = Inr m \<Longrightarrow> sphere_name m = strip n"
  by (auto simp: new_CreateSphereInput_def name_length_ok_def name_clean_def model_simps isl_checked_name isl_plain_name projr_checked_name split: if_splits)

lemma CreateCylinderInput_name_checked:
  "rejects ''name'' (new_CreateCylinderInput n r d l v) \<longleftrightarrow>
     \<not> (name_length_ok n \<and> name_clean n)"
  "new_CreateCylinderInput n r d l v = Inr m \<Longrightarrow> cylinder_name m = strip n"
  by (auto simp: new_CreateCylinderInput_def name_length_ok_def name_clean_def model_simps isl_checked_name isl_plain_name projr_checked_name split: if_splits)

lemma CreatePlaneInput_name_checked:
  "rejects ''name'' (new_CreatePlaneInput n s l) \<longleftrightarrow>
     \<not> (name_length_ok n \<and> name_clean n)"
  "new_CreatePlaneInput n s l = Inr m \<Longrightarrow> plane_name m = strip n"
  by (auto simp: new_CreatePlaneInput_def name_length_ok_def name_clean_def model_simps isl_checked_name isl_plain_name projr_checked_name split: if_splits)

lemma CreateCameraInput_name_checked:
  "rejects ''name'' (new_CreateCameraInput n l ro) \<longleftrightarrow>
     \<not> (name_length_ok n \<and> name_clean n)"
  "new_CreateCameraInput n l ro = Inr m \<Longrightarrow> cam_name m = strip n"
  by (auto simp: new_CreateCameraInput_def name_length_ok_def name_clean_def model_simps isl_checked_name isl_plain_name projr_checked_name split: if_splits)

lemma CreateLightInput_name_checked:
  "rejects ''name'' (new_CreateLightInput n lt l e) \<longleftrightarrow>
     \<not> (name_length_ok n \<and> name_clean n)"
  "new_CreateLightInput n lt l e = Inr m \<Longrightarrow> light_name m = strip n"
  by (auto simp: new_CreateLightInput_def name_length_ok_def name_clean_def model_simps isl_checked_name isl_plain_name projr_checked_name split: if_splits)

lemma DuplicateObjectInput_new_name_checked:
  "rejects ''new_name'' (new_DuplicateObjectInput src n lo) \<longleftrightarrow>
     \<not> (name_length_ok n \<and> name_clean n)"
  "new_DuplicateObjectInput src n lo = Inr m \<Longrightarrow> duplicate_new_name m = strip n"
  by (auto simp: new_DuplicateObjectInput_def name_length_ok_def name_clean_def model_simps isl_checked_name isl_plain_name projr_checked_name split: if_splits)

lemma MoveObjectInput_name_plain:
  "rejects ''name'' (new_MoveObjectInput n l) \<longleftrightarrow> \<not> name_length_ok n"
  "new_MoveObjectInput n l = Inr m \<Longrightarrow> move_name m = n"
  by (auto simp: new_MoveObjectInput_def name_length_ok_def name_clean_def model_simps isl_checked_name isl_plain_name projr_plain_name split: if_splits)

lemma DeleteObjectInput_name_plain:
  "rejects ''name'' (new_DeleteObjectInput n) \<longleftrightarrow> \<not> name_length_ok n"
  "new_DeleteObjectInput n = Inr m \<Longrightarrow> delete_name m = n"
  by (auto simp: new_DeleteObjectInput_def name_length_ok_def name_clean_def model_simps isl_checked_name isl_plain_name projr_plain_name split: if_splits)

lemma SelectObjectInput_name_plain:
  "rejects ''name'' (new_SelectObjectInput n) \<longleftrightarrow> \<not> name_length_ok n"
  "new_SelectObjectInput n = Inr m \<Longrightarrow> select_name m = n"
  by (auto simp: new_SelectObjectInput_def name_length_ok_def name_clean_def model_simps isl_checked_name isl_plain_name projr_plain_name split: if_splits)

lemma RotateObjectInput_name_plain:
  "rejects ''name'' (new_RotateObjectInput n ro) \<longleftrightarrow> \<not> name_length_ok n"
  "new_RotateObjectInput n ro = Inr m \<Longrightarrow> rotate_name m = n"
  by (auto simp: new_RotateObjectInput_def name_length_ok_def name_clean_def model_simps isl_checked_name isl_plain_name projr_plain_name split: if_splits)

lemma ScaleObjectInput_name_plain:
  "rejects ''name'' (new_ScaleObjectInput n sc) \<longleftrightarrow> \<not> name_length_ok n"
  "new_ScaleObjectInput n sc = Inr m \<Longrightarrow> scale_name m = n"
  by (auto simp: new_ScaleObjectInput_def name_length_ok_def name_clean_def model_simps isl_checked_name isl_plain_name projr_plain_name split: if_splits)

lemma GetObjectInfoInput_name_plain:
  "rejects ''name'' (new_GetObjectInfoInput n) \<longleftrightarrow> \<not> name_length_ok n"
  "new_GetObjectInfoInput n = Inr m \<Longrightarrow> info_name m = n"
  by (auto simp: new_GetObjectInfoInput_def name_length_ok_def name_clean_def model_simps isl_checked_name isl_plain_name projr_plain_name split: if_splits)

lemma DuplicateObjectInput_name_plain:
  "rejects ''name'' (new_DuplicateObjectInput n nn lo) \<longleftrightarrow> \<not> name_length_ok n"
  "new_DuplicateObjectInput n nn lo = Inr m \<Longrightarrow> duplicate_name m = n"
  by (auto simp: new_DuplicateObjectInput_def name_length_ok_def name_clean_def model_simps isl_checked_name isl_plain_name projr_plain_name split: if_splits)

lemma CreateMaterialInput_name_plain:
  "rejects ''name'' (new_CreateMaterialInput n c) \<longleftrightarrow> \<not> name_length_ok n"
  "new_CreateMaterialInput n c = Inr m \<Longrightarrow> mat_name m = n"
  by (auto simp: new_CreateMaterialInput_def name_length_ok_def name_clean_def model_simps isl_checked_name isl_plain_name projr_plain_name split: if_splits)

lemma AssignMaterialInput_object_name_plain:
  "rejects ''object_name'' (new_AssignMaterialInput n mn) \<longleftrightarrow> \<not> name_length_ok n"
  "new_AssignMaterialInput n mn = Inr m \<Longrightarrow> assign_object_name m = n"
  by (auto simp: new_AssignMaterialInput_def name_length_ok_def name_clean_def model_simps isl_checked_name isl_plain_name projr_plain_name split: if_splits)

lemma AssignMaterialInput_material_name_plain:
  "rejects ''material_name'' (new_AssignMaterialInput onm n) \<longleftrightarrow> \<not> name_length_ok n"
  "new_AssignMaterialInput onm n = Inr m \<Longrightarrow> assign_material_name m = n"
  by (auto simp: new_AssignMaterialInput_def name_length_ok_def name_clean_def model_simps isl_checked_name isl_plain_name projr_plain_name split: if_splits)

lemma SetActiveCameraInput_camera_name_plain:
  "rejects ''camera_name'' (new_SetActiveCameraInput n) \<longleftrightarrow> \<not> name_length_ok n"
  "new_SetActiveCameraInput n = Inr m \<Longrightarrow> active_camera_name m = n"
  by (auto simp: new_SetActiveCameraInput_def name_length_ok_def name_clean_def model_simps isl_checked_name isl_plain_name projr_plain_name split: if_splits)

text \<open>
  C9 (amended).  The name of a new entity (\<open>name\<close> of the six creation models and
  \<open>new_name\<close> of \<open>DuplicateObjectInput\<close>) is rejected exactly when its length is outside
  1..63 or it contains one of the nine forbidden characters, and an accepted name is
  stored stripped of leading and trailing whitespace.  Every other name field (the name
  of an existing object in move, delete, select, rotate, scale, get-info, duplicate and
  set-active-camera, both names of assign-material, and the name of a new material) is
  rejected exactly when its length is outside 1..63, and an accepted name is stored as it
  was given: forbidden characters pass and nothing is stripped.
\<close>

theorem name_fields:
  "(rejects ''name'' (new_CreateCubeInput n s l) \<longleftrightarrow> \<not> (name_length_ok n \<and> name_clean n)) \<and>
   (\<forall>m. new_CreateCubeInput n s l = Inr m \<longrightarrow> cube_name m = strip n) \<and>
   (rejects ''name'' (new_CreateSphereInput n sg rc r cu ee al l ro sc) \<longleftrightarrow> \<not> (name_length_ok n \<and> name_clean n)) \<and>
   (\<forall>m. new_CreateSphereInput n sg rc r cu ee al l ro sc = Inr m \<longrightarrow> sphere_name m = strip n) \<and>
   (rejects ''name'' (new_CreateCylinderInput n r d l v) \<longleftrightarrow> \<not> (name_length_ok n \<and> name_clean n)) \<and>
   (\<forall>m. new_CreateCylinderInput n r d l v = Inr m \<longrightarrow> cylinder_name m = strip n) \<and>
   (rejects ''name'' (new_CreatePlaneInput n s l) \<longleftrightarrow> \<not> (name_length_ok n \<and> name_clean n)) \<and>
   (\<forall>m. new_CreatePlaneInput n s l = Inr m \<longrightarrow> plane_name m = strip n) \<and>
   (rejects ''name'' (new_CreateCameraInput n l ro) \<longleftrightarrow> \<not> (name_length_ok n \<and> name_clean n)) \<and>
   (\<forall>m. new_CreateCameraInput n l ro = Inr m \<longrightarrow> cam_name m = strip n) \<and>
   (rejects ''name'' (new_CreateLightInput n lt l e) \<longleftrightarrow> \<not> (name_length_ok n \<and> name_clean n)) \<and>
   (\<forall>m. new_CreateLightInput n lt l e = Inr m \<longrightarrow> light_name m = strip n) \<and>
   (rejects ''new_name'' (new_DuplicateObjectInput src n lo) \<longleftrightarrow> \<not> (name_length_ok n \<and> name_clean n)) \<and>
   (\<forall>m. new_DuplicateObjectInput src n lo = Inr m \<longrightarrow> duplicate_new_name m = strip n) \<and>
   (rejects ''name'' (new_MoveObjectInput n l) \<longleftrightarrow> \<not> name_length_ok n) \<and>
   (\<forall>m. new_MoveObjectInput n l = Inr m \<longrightarrow> move_name m = n) \<and>
   (rejects ''name'' (new_DeleteObjectInput n) \<longleftrightarrow> \<not> name_length_ok n) \<and>
   (\<forall>m. new_DeleteObjectInput n = Inr m \<longrightarrow> delete_name m = n) \<and>
   (rejects ''name'' (new_SelectObjectInput n) \<longleftrightarrow> \<not> name_length_ok n) \<and>
   (\<forall>m. new_SelectObjectInput n = Inr m \<longrightarrow> select_name m = n) \<and>
   (rejects ''name'' (new_RotateObjectInput n ro) \<longleftrightarrow> \<not> name_length_ok n) \<and>
   (\<forall>m. new_RotateObjectInput n ro = Inr m \<longrightarrow> rotate_name m = n) \<and>
   (rejects ''name'' (new_ScaleObjectInput n sc) \<longleftrightarrow> \<not> name_length_ok n) \<and>
   (\<forall>m. new_ScaleObjectInput n sc = Inr m \<longrightarrow> scale_name m = n) \<and>
   (rejects ''name'' (new_GetObjectInfoInput n) \<longleftrightarrow> \<not> name_length_ok n) \<and>
   (\<forall>m. new_GetObjectInfoInput n = Inr m \<longrightarrow> info_name m = n) \<and>
   (rejects ''name'' (new_DuplicateObjectInput n nn lo) \<longleftrightarrow> \<not> name_length_ok n) \<and>
   (\<forall>m. new_DuplicateObjectInput n nn lo = Inr m \<longrightarrow> duplicate_name m = n) \<and>
   (rejects ''name'' (new_CreateMaterialInput n c) \<longleftrightarrow> \<not> name_length_ok n) \<and>
   (\<forall>m. new_CreateMaterialInput n c = Inr m \<longrightarrow> mat_name m = n) \<and>
   (rejects ''object_name'' (new_AssignMaterialInput n mn) \<longleftrightarrow> \<not> name_length_ok n) \<and>
   (\<forall>m. new_AssignMaterialInput n mn = Inr m \<longrightarrow> assign_object_name m = n) \<and>
   (rejects ''material_name'' (new_AssignMaterialInput onm n) \<longleftrightarrow> \<not> name_length_ok n) \<and>
   (\<forall>m. new_AssignMaterialInput onm n = Inr m \<longrightarrow> assign_material_name m = n) \<and>
   (rejects ''camera_name'' (new_SetActiveCameraInput n) \<longleftrightarrow> \<not> name_length_ok n) \<and>
   (\<forall>m. new_SetActiveCameraInput n = Inr m \<longrightarrow> active_camera_name m = n)"
  by (intro conjI allI impI;
      (rule CreateCubeInput_name_checked(1)
            CreateSphereInput_name_checked(1)
            CreateCylinderInput_name_checked(1)
            CreatePlaneInput_name_checked(1)
            CreateCameraInput_name_checked(1)
            CreateLightInput_name_checked(1)
            DuplicateObjectInput_new_name_checked(1)
            MoveObjectInput_name_plain(1)
            DeleteObjectInput_name_plain(1)
            SelectObjectInput_name_plain(1)
            RotateObjectInput_name_plain(1)
            ScaleObjectInput_name_plain(1)
            GetObjectInfoInput_name_plain(1)
            DuplicateObjectInput_name_plain(1)
            CreateMaterialInput_name_plain(1)
            AssignMaterialInput_object_name_plain(1)
            AssignMaterialInput_material_name_plain(1)
            SetActiveCameraInput_camera_name_plain(1)
       | (rule CreateCubeInput_name_checked(2)
            CreateSphereInput_name_checked(2)
            CreateCylinderInput_name_checked(2)
            CreatePlaneInput_name_checked(2)
            CreateCameraInput_name_checked(2)
            CreateLightInput_name_checked(2)
            DuplicateObjectInput_new_name_checked(2)
            MoveObjectInput_name_plain(2)
            DeleteObjectInput_name_plain(2)
            SelectObjectInput_name_plain(2)
            RotateObjectInput_name_plain(2)
            ScaleObjectInput_name_plain(2)
            GetObjectInfoInput_name_plain(2)
            DuplicateObjectInput_name_plain(2)
            CreateMaterialInput_name_plain(2)
            AssignMaterialInput_object_name_plain(2)
            AssignMaterialInput_material_name_plain(2)
            SetActiveCameraInput_camera_name_plain(2), assumption)))


theorem name_fields_witness:
  "\<not> rejects ''name'' (new_CreateCubeInput [32, 66, 111, 120, 32] 2 (0, 0, 0)) \<and>
   new_CreateCubeInput [32, 66, 111, 120, 32] 2 (0, 0, 0) =
     Inr \<lparr>cube_name = [66, 111, 120], cube_size = 2, cube_location = (0, 0, 0)\<rparr> \<and>
   \<not> rejects ''name'' (new_MoveObjectInput [32, 66, 111, 120, 32] (0, 0, 0)) \<and>
   new_MoveObjectInput [32, 66, 111, 120, 32] (0, 0, 0) =
     Inr \<lparr>move_name = [32, 66, 111, 120, 32], move_location = (0, 0, 0)\<rparr>"
proof -
  let ?n = "[32, 66, 111, 120, 32] :: pystr"
  have ok: "name_length_ok ?n" "name_clean ?n"
    by (simp_all add: name_length_ok_def name_clean_def invalid_chars_def)
  have st: "strip ?n = [66, 111, 120]"
    by (simp add: strip_def isspace_def)
  from name_fields [where n = ?n and s = 2 and l = "(0, 0, 0)"]
  have a: "\<not> rejects ''name'' (new_CreateCubeInput ?n 2 (0, 0, 0))"
    and b: "\<not> rejects ''name'' (new_MoveObjectInput ?n (0, 0, 0))"
    using ok by blast+
  have c: "new_CreateCubeInput ?n 2 (0, 0, 0) =
     Inr \<lparr>cube_name = [66, 111, 120], cube_size = 2, cube_location = (0, 0, 0)\<rparr>"
    by (simp add: new_CreateCubeInput_def after_def str_field_def invalid_chars_def strip_def isspace_def
        validate_name_def float_gt_le_def lit_0_001_def validate_location_def all_within_def
        field_errors_def)
  have d: "new_MoveObjectInput ?n (0, 0, 0) =
     Inr \<lparr>move_name = ?n, move_location = (0, 0, 0)\<rparr>"
    by (simp add: new_MoveObjectInput_def str_field_def validate_location_def all_within_def
        field_errors_def)
  from a b c d show ?thesis by simp
qed

theorem move_name_unchecked:
  "new_MoveObjectInput (S ''a/b '') (0, 0, 0) =
     Inr \<lparr>move_name = S ''a/b '', move_location = (0, 0, 0)\<rparr>"
  by (simp add: new_MoveObjectInput_def S_def str_field_def validate_location_def
        all_within_def field_errors_def)

subsection \<open>Float bounds\<close>

text \<open>
  C7 (amended).  The size of a cube and of a plane and the radius and the depth of a
  cylinder are accepted exactly when \<open>0.001 < v \<le> 1000.0\<close>.  The radius of a sphere is
  accepted exactly when \<open>0.0 \<le> v \<le> 1000.0\<close>, so it accepts \<open>0.0\<close>.
\<close>

theorem size_fields:
  "(rejects ''size'' (new_CreateCubeInput n v l) \<longleftrightarrow> \<not> (lit_0_001 < v \<and> v \<le> 1000)) \<and>
   (rejects ''size'' (new_CreatePlaneInput n v l) \<longleftrightarrow> \<not> (lit_0_001 < v \<and> v \<le> 1000)) \<and>
   (rejects ''radius'' (new_CreateCylinderInput n v d l vs) \<longleftrightarrow> \<not> (lit_0_001 < v \<and> v \<le> 1000)) \<and>
   (rejects ''depth'' (new_CreateCylinderInput n r v l vs) \<longleftrightarrow> \<not> (lit_0_001 < v \<and> v \<le> 1000)) \<and>
   (rejects ''radius'' (new_CreateSphereInput n sg rc v cu ee al l ro sc) \<longleftrightarrow> \<not> (0 \<le> v \<and> v \<le> 1000))"
  by (auto simp: new_CreateCubeInput_def new_CreatePlaneInput_def new_CreateCylinderInput_def
        new_CreateSphereInput_def model_simps isl_float_gt_le isl_float_ge_le)

theorem size_fields_witness:
  "rejects ''size'' (new_CreateCubeInput (S ''ok'') 0 (0, 0, 0)) \<and>
   \<not> rejects ''size'' (new_CreateCubeInput (S ''ok'') 2 (0, 0, 0)) \<and>
   \<not> rejects ''radius'' (new_CreateSphereInput (S ''ok'') 32 16 0 True False (S ''WORLD'')
        (0, 0, 0) (0, 0, 0) (1, 1, 1))"
  using size_fields [where v = 0] size_fields [where v = 2]
  by (simp add: lit_0_001_def)

theorem sphere_radius_zero_accepted:
  "new_CreateSphereInput (S ''Ball'') 32 16 0 True False (S ''WORLD'') (0, 0, 0) (0, 0, 0) (1, 1, 1) =
     Inr \<lparr>sphere_name = S ''Ball'', sphere_segments = 32, sphere_ring_count = 16,
          sphere_radius = 0, sphere_calc_uvs = True, sphere_enter_editmode = False,
          sphere_align = S ''WORLD'', sphere_location = (0, 0, 0), sphere_rotation = (0, 0, 0),
          sphere_scale = (1, 1, 1)\<rparr>"
  by (simp add: new_CreateSphereInput_def S_def after_def str_field_def validate_name_def
        invalid_chars_def strip_def isspace_def int_ge_le_def float_ge_le_def validate_align_def
        validate_vector3_def all_within_def validate_scale_sphere_def field_errors_def)

subsection \<open>Rotation bounds\<close>

text \<open>
  C8 (amended).  The rotation of \<open>RotateObjectInput\<close> is accepted exactly when every
  component lies within \<open>\<plusminus>6.28318\<close>; the rotation of \<open>CreateSphereInput\<close> exactly when
  every component lies within \<open>\<plusminus>10000.0\<close>; the rotation of \<open>CreateCameraInput\<close> has no
  validator and is never rejected.
\<close>

theorem rotation_fields:
  "(rejects ''rotation'' (new_RotateObjectInput n v) \<longleftrightarrow> \<not> all_within lit_6_28318 v) \<and>
   (rejects ''rotation'' (new_CreateSphereInput n sg rc r cu ee al l v sc) \<longleftrightarrow>
      \<not> all_within 10000 v) \<and>
   \<not> rejects ''rotation'' (new_CreateCameraInput n l v)"
  by (auto simp: new_RotateObjectInput_def new_CreateSphereInput_def new_CreateCameraInput_def
        model_simps isl_validate_rotation isl_validate_vector3)

theorem rotation_fields_witness:
  "rejects ''rotation'' (new_RotateObjectInput (S ''Cube'') (7, 0, 0)) \<and>
   \<not> rejects ''rotation'' (new_CreateSphereInput (S ''Ball'') 32 16 1 True False (S ''WORLD'')
        (0, 0, 0) (7, 0, 0) (1, 1, 1)) \<and>
   \<not> rejects ''rotation'' (new_CreateCameraInput (S ''Cam'') (0, 0, 5) (7, 0, 0))"
  using rotation_fields [where v = "(7, 0, 0)"]
  by (simp add: all_within_def lit_6_28318_def)

theorem camera_rotation_unbounded:
  "new_CreateCameraInput (S ''Cam'') (0, 0, 5) (7, 0, 0) =
     Inr \<lparr>cam_name = S ''Cam'', cam_location = (0, 0, 5), cam_rotation = (7, 0, 0)\<rparr>"
  by (simp add: new_CreateCameraInput_def S_def after_def str_field_def validate_name_def
        invalid_chars_def strip_def isspace_def validate_location_def all_within_def
        field_errors_def)

section \<open>Properties of the tools\<close>

lemma field_errors_fst: "map fst (field_errors g r) = (if isl r then [g] else [])"
  by (cases r) (auto simp: field_errors_def)

lemma isl_validate_location: "isl (validate_location v) \<longleftrightarrow> \<not> all_within 10000 v"
  by (auto simp: validate_location_def)

lemmas eval_model = S_def after_def str_field_def validate_name_def invalid_chars_def strip_def
  isspace_def float_gt_le_def lit_0_001_def validate_location_def all_within_def field_errors_def

lemmas monad_defs = operation_def bnd_def thn_def ask_def ret_def raise_def call_def import_bpy_def

lemmas tool_defs = create_cube_tool_def create_sphere_tool_def move_object_tool_def
  list_objects_tool_def delete_object_tool_def select_object_tool_def create_material_tool_def
  assign_material_tool_def rotate_object_tool_def scale_object_tool_def get_object_info_tool_def
  create_camera_tool_def create_light_tool_def render_scene_tool_def clear_scene_tool_def
  duplicate_object_tool_def set_active_camera_tool_def create_cylinder_tool_def
  create_plane_tool_def get_scene_filepath_tool_def save_file_tool_def open_file_tool_def


subsection \<open>Every tool returns a string\<close>

lemma operation_returns: "\<exists>r s'. operation w label body s = (Inr r, s')"
  by (auto simp: operation_def split: prod.splits sum.splits exn.splits)

lemma tool_returns: "\<exists>r s'. tool w im h s = (Inr r, s')"
  by (auto simp: tool_def split: prod.splits sum.splits)

lemma tool0_returns: "\<exists>r s'. tool0 w h s = (Inr r, s')"
  by (auto simp: tool0_def split: prod.splits sum.splits)

text \<open>
  C2.  Whatever the request, the host and the state, the tool returns a result string:
  no exception leaves a tool, whether the input is invalid, the host raises during a
  read or a change, or \<open>bpy\<close> is absent.
\<close>

theorem tools_total: "\<exists>r s'. invoke w c s = (Inr r, s')"
  by (cases c)
     (simp_all add: tool_defs tool_returns tool0_returns get_scene_filepath_def operation_returns)

theorem tools_total_witness:
  "invoke failing_host (create_cube_call (S ''Box'') 2 (0, 0, 0)) start =
     (Inr (S ''Error [Create Cube]: boom''), \<lparr>log = [], handler_calls = 1\<rparr>)"
  using tools_total [of failing_host "create_cube_call (S ''Box'') 2 (0, 0, 0)" start]
  by (simp add: create_cube_tool_def tool_def create_cube_def monad_defs failing_host_def
        empty_scene_def start_def invoked_def str_exn_def new_CreateCubeInput_def eval_model)

subsection \<open>Invalid input\<close>

lemma tool_invalid:
  "map_sum id (\<lambda>_. ()) im = Inl ve \<Longrightarrow>
     tool w im h s = (Inr (S ''Error: '' @ validation_error_str w ve), s)"
  by (cases im) (simp_all add: tool_def str_exn_def)

lemma invoke_invalid:
  "validation c = Inl ve \<Longrightarrow>
     invoke w c s = (Inr (S ''Error: '' @ validation_error_str w ve), s)"
  by (cases c) (simp_all add: tool_defs tool_invalid)

text \<open>
  C1.  When building the input model of a request raises a \<open>ValidationError\<close>, the tool
  returns the string \<open>"Error: "\<close> followed by \<open>str\<close> of that error, and the state is the
  one before the call: the handler was not invoked (the counter of invocations is
  unchanged) and the host was not touched.
\<close>

theorem invalid_input_rejected:
  "validation c = Inl ve \<Longrightarrow>
     invoke w c s = (Inr (S ''Error: '' @ validation_error_str w ve), s)"
  by (rule invoke_invalid)

theorem invalid_input_rejected_witness:
  "validation (create_cube_call (S ''ok'') 0 (0, 0, 0)) = Inl [(''size'', greater_than lit_0_001)] \<and>
   invoke empty_scene (create_cube_call (S ''ok'') 0 (0, 0, 0)) start =
     (Inr (S ''Error: 1 validation error(s)''), start)"
proof -
  have v: "validation (create_cube_call (S ''ok'') 0 (0, 0, 0)) =
      Inl [(''size'', greater_than lit_0_001)]"
    by (simp add: new_CreateCubeInput_def eval_model)
  have d: "digits 1 = [49]"
    by simp
  from invalid_input_rejected [OF v, of empty_scene start] v show ?thesis
    by (simp add: empty_scene_def str_nat_def d S_def)
qed




















subsection \<open>Missing entities\<close>

text \<open>
  C5.  On a present host, a handler that looks up an object by a name the host does not
  know returns \<open>"Error: Object '<name>' not found"\<close> (\<open>"Error: Camera ..."\<close> for
  set-active-camera) and leaves the state as it was: no change of the host was made.
  The same holds for the material of assign-material when the object exists and the
  material does not.  Through the tool, moving an object the host does not know gives
  that string as well.
\<close>

theorem missing_entity_short_circuits:
  "(bpy_present w \<and> objects_get w (log s) n = Inr None \<longrightarrow>
     move_object w \<lparr>move_name = n, move_location = l\<rparr> s = (Inr (not_found (S ''Object'') n), s) \<and>
     delete_object w \<lparr>delete_name = n\<rparr> s = (Inr (not_found (S ''Object'') n), s) \<and>
     select_object w \<lparr>select_name = n\<rparr> s = (Inr (not_found (S ''Object'') n), s) \<and>
     assign_material w \<lparr>assign_object_name = n, assign_material_name = mn\<rparr> s =
       (Inr (not_found (S ''Object'') n), s) \<and>
     rotate_object w \<lparr>rotate_name = n, rotate_rotation = ro\<rparr> s =
       (Inr (not_found (S ''Object'') n), s) \<and>
     scale_object w \<lparr>scale_name = n, scale_scale = sc\<rparr> s =
       (Inr (not_found (S ''Object'') n), s) \<and>
     get_object_info w \<lparr>info_name = n\<rparr> s = (Inr (not_found (S ''Object'') n), s) \<and>
     duplicate_object w \<lparr>duplicate_name = n, duplicate_new_name = nn, duplicate_location = lo\<rparr> s =
       (Inr (not_found (S ''Object'') n), s) \<and>
     set_active_camera w \<lparr>active_camera_name = n\<rparr> s = (Inr (not_found (S ''Camera'') n), s) \<and>
     (name_length_ok n \<and> all_within 10000 l \<longrightarrow>
        move_object_tool w n l s = (Inr (not_found (S ''Object'') n), invoked s))) \<and>
   (bpy_present w \<and> objects_get w (log s) n = Inr (Some ob) \<and>
    materials_get w (log s) mn = Inr None \<longrightarrow>
      assign_material w \<lparr>assign_object_name = n, assign_material_name = mn\<rparr> s =
        (Inr (not_found (S ''Material'') mn), s))"
  by (simp add: move_object_def delete_object_def select_object_def assign_material_def
        rotate_object_def scale_object_def get_object_info_def duplicate_object_def
        set_active_camera_def monad_defs not_found_def S_def
        move_object_tool_def tool_def new_MoveObjectInput_def str_field_def name_length_ok_def
        validate_location_def field_errors_def invoked_def)

theorem missing_entity_short_circuits_witness:
  \<open>move_object empty_scene \<lparr>move_name = S ''Ghost'', move_location = (1, 2, 3)\<rparr> start =
     (Inr (S ''Error: Object 'Ghost' not found''), start) \<and>
   move_object_tool empty_scene (S ''Ghost'') (1, 2, 3) start =
     (Inr (S ''Error: Object 'Ghost' not found''), \<lparr>log = [], handler_calls = 1\<rparr>) \<and>
   set_active_camera empty_scene \<lparr>active_camera_name = S ''Ghost''\<rparr> start =
     (Inr (S ''Error: Camera 'Ghost' not found''), start) \<and>
   assign_material scene_with_object
      \<lparr>assign_object_name = S ''Cube'', assign_material_name = S ''Gold''\<rparr> start =
     (Inr (S ''Error: Material 'Gold' not found''), start)\<close>
proof -
  have h: "bpy_present empty_scene \<and> objects_get empty_scene (log start) (S ''Ghost'') = Inr None"
    by (simp add: empty_scene_def)
  have n: "name_length_ok (S ''Ghost'') \<and> all_within 10000 (1, 2, 3)"
    by (simp add: name_length_ok_def S_def all_within_def)
  have m: "bpy_present scene_with_object \<and>
      objects_get scene_with_object (log start) (S ''Cube'') = Inr (Some 0) \<and>
      materials_get scene_with_object (log start) (S ''Gold'') = Inr None"
    by (simp add: scene_with_object_def empty_scene_def)
  from missing_entity_short_circuits [of empty_scene start "S ''Ghost''" "(1, 2, 3)"] h n
    missing_entity_short_circuits [of scene_with_object start "S ''Cube''" _ "S ''Gold''" _ _ _ _ 0] m
  show ?thesis
    by (simp add: not_found_def quoted_def S_def invoked_def start_def)
qed

subsection \<open>A name of whitespace only\<close>

lemma strip_blank:
  assumes "\<forall>c\<in>set n. isspace c"
  shows "strip n = []"
proof -
  from assms have h: "dropWhile isspace n = []"
    by (simp add: dropWhile_eq_Nil_conv)
  show ?thesis
    by (simp only: strip_def h rev.simps dropWhile.simps)
qed

lemma blank_clean: "\<forall>c\<in>set n. isspace c \<Longrightarrow> name_clean n"
  by (auto simp: name_clean_def invalid_chars_def isspace_def)

lemma blank_name_model:
  assumes "name_length_ok n" "\<forall>c\<in>set n. isspace c" "lit_0_001 < v" "v \<le> 1000" "all_within 10000 l"
  shows "new_CreateCubeInput n v l = Inr \<lparr>cube_name = [], cube_size = v, cube_location = l\<rparr>"
proof -
  have "after (str_field 1 (Some 63) n) validate_name = Inr []"
    using assms(1,2) blank_clean [of n] strip_blank [of n]
    by (auto simp: after_def str_field_def validate_name_def name_length_ok_def name_clean_def)
  then show ?thesis using assms(3-5)
    by (simp add: new_CreateCubeInput_def float_gt_le_def validate_location_def field_errors_def)
qed

text \<open>
  C10.  A name of 1 to 63 whitespace characters passes validation: the length is checked
  before the validator strips the name, and no whitespace character is forbidden.  The
  model then holds the empty name, and on a host that does not raise the cube tool names
  the new object with the empty string.
\<close>

theorem blank_name_creates_unnamed:
  assumes "name_length_ok n" and "\<forall>c\<in>set n. isspace c"
    and "lit_0_001 < v" and "v \<le> 1000" and "all_within 10000 l"
  shows "new_CreateCubeInput n v l = Inr \<lparr>cube_name = [], cube_size = v, cube_location = l\<rparr> \<and>
    (bpy_present w \<and> perform w (log s) (primitive_cube_add v l) = None \<and>
     active_object w (log s @ [primitive_cube_add v l]) = Inr (Some ob) \<and>
     perform w (log s @ [primitive_cube_add v l]) (set_name ob []) = None \<longrightarrow>
     create_cube_tool w n v l s =
       (Inr (S ''Successfully created cube '' @ quoted [] @ S '' with size '' @ float_repr w v @
             S '' at location '' @ str_vec3 w l),
        \<lparr>log = log s @ [primitive_cube_add v l, set_name ob []],
         handler_calls = Suc (handler_calls s)\<rparr>))"
  using blank_name_model [OF assms]
  by (simp add: create_cube_tool_def tool_def create_cube_def monad_defs invoked_def)

theorem blank_name_creates_unnamed_witness:
  \<open>new_CreateCubeInput (S ''   '') 2 (0, 0, 0) =
     Inr \<lparr>cube_name = [], cube_size = 2, cube_location = (0, 0, 0)\<rparr> \<and>
   create_cube_tool empty_scene (S ''   '') 2 (0, 0, 0) start =
     (Inr (S ''Successfully created cube '' @ [39, 39] @
           S '' with size 2.0 at location (0.0, 0.0, 0.0)''),
      \<lparr>log = [primitive_cube_add 2 (0, 0, 0), set_name 0 []], handler_calls = 1\<rparr>)\<close>
proof -
  have a: "name_length_ok (S ''   '')" "\<forall>c\<in>set (S ''   ''). isspace c"
    "lit_0_001 < (2::rat)" "(2::rat) \<le> 1000" "all_within 10000 (0, 0, 0)"
    by (simp_all add: name_length_ok_def S_def isspace_def lit_0_001_def all_within_def)
  have d: "digits 0 = [48]" "digits 2 = [50]"
    by simp_all
  have b: "bpy_present empty_scene \<and>
     perform empty_scene (log start) (primitive_cube_add 2 (0, 0, 0)) = None \<and>
     active_object empty_scene (log start @ [primitive_cube_add 2 (0, 0, 0)]) = Inr (Some 0) \<and>
     perform empty_scene (log start @ [primitive_cube_add 2 (0, 0, 0)]) (set_name 0 []) = None"
    by (simp add: empty_scene_def)
  from blank_name_creates_unnamed [OF a, of empty_scene start 0] b
  show ?thesis
    by (simp add: start_def quoted_def S_def str_vec3_def empty_scene_def str_int_def d)
qed

section \<open>Properties of the output filter\<close>


























lemma ascii_append: "ascii (s @ t) \<longleftrightarrow> ascii s \<and> ascii t"
  by (auto simp: ascii_def)
















lemma read_data:
  "d \<noteq> [] \<Longrightarrow> \<not> stopped st \<Longrightarrow> extract_json_from_buffer (buf st @ d) (written st) = (b, w) \<Longrightarrow>
     filter_read (d, e) st = st\<lparr>buf := (if length b > 100000 then [] else b), written := w\<rparr>"
  by (simp add: filter_read_def)

lemma read_idle:
  "\<not> stopped st \<Longrightarrow> extract_json_from_buffer (buf st) (written st) = (b, w) \<Longrightarrow>
     filter_read ([], False) st = st\<lparr>buf := b, written := w\<rparr>"
  by (simp add: filter_read_def)













lemmas filter_eval = filter_stdout_def filter_read_def filter_init_def
  decode_def encode_def utf8_char_def continuation_def
  strip_def isspace_def json_start_def json_loads_ok_def S_def value_start_def after_value_def
  json_ws_def digit_def hexdigit_def final_def Let_def char_of_def bit_Suc_0_iff







text \<open>
  C4.  Not every unit that the filter writes is a JSON value.  When the process has ended,
  \<open>filter_stdout\<close> parses the decoded and stripped text of the buffer, but writes the buffer
  itself.  For the bytes \<open>FF FF [{"a":1}]\<close> followed by the end of the process,
  \<open>_extract_json_from_buffer\<close> finds \<open>{\<close> at index 1 of the text, removes one byte of the
  buffer, and fails to parse \<open>{"a":1}]\<close>; at the end the text of the buffer is \<open>[{"a":1}]\<close>,
  which parses, and the unit written is \<open>FF [{"a":1}]\<close>, which is not valid UTF-8.
\<close>

theorem eof_writes_raw_buffer:
  \<open>filter_stdout [([CHR 0xFF, CHR 0xFF] @ ''[{"a":1}]'', False), ([], True)] filter_init =
     \<lparr>buf = [CHR 0xFF] @ ''[{"a":1}]'', written = [[CHR 0xFF] @ ''[{"a":1}]''], stopped = True\<rparr> \<and>
   \<not> json_unit ([CHR 0xFF] @ ''[{"a":1}]'')\<close>
  by (simp add: filter_eval json_unit_def)

end
